theory Spec2Isabelle
  imports Complex_Main
begin

section \<open>Strings\<close>

text \<open>
  Python strings are modelled as \<^typ>\<open>string\<close>; every character of the module is below
  code point 256, so one \<^typ>\<open>char\<close> is one Python character. Substring search is Python's
  \<^verbatim>\<open>pat in s\<close>.
\<close>

fun starts_with :: "string \<Rightarrow> string \<Rightarrow> bool" where
  "starts_with [] s = True"
| "starts_with (p # ps) [] = False"
| "starts_with (p # ps) (c # cs) = (p = c \<and> starts_with ps cs)"

fun contains_str :: "string \<Rightarrow> string \<Rightarrow> bool" where
  "contains_str p [] = starts_with p []"
| "contains_str p (c # cs) = (starts_with p (c # cs) \<or> contains_str p cs)"

text \<open>A multi-line literal is kept as the list of its lines; its value joins them with
  the newline character.\<close>

fun join_lines :: "string list \<Rightarrow> string" where
  "join_lines [] = []"
| "join_lines [l] = l"
| "join_lines (l # ls) = l @ CHR 0x0A # join_lines ls"

section \<open>Python values, exceptions and name lookup\<close>

datatype exn = Exn (exn_class: string) (exn_msg: string)

definition NameError :: "string \<Rightarrow> exn" where
  "NameError n = Exn ''NameError'' (''name '' @ [CHR 0x27] @ n @ [CHR 0x27] @ '' is not defined'')"

definition AttributeError :: "string \<Rightarrow> exn" where
  "AttributeError a = Exn ''AttributeError'' (''object has no attribute '' @ [CHR 0x27] @ a @ [CHR 0x27])"

definition TypeError :: "string \<Rightarrow> exn" where
  "TypeError m = Exn ''TypeError'' m"

text \<open>
  The values the module handles. \<open>PObj\<close> is an opaque object of an imported library,
  named by the path it was obtained through; \<open>PNum\<close> keeps a numeric literal as written.
\<close>

datatype pyval =
    PNone
  | PBool bool
  | PNum string
  | PStr string
  | PList "pyval list"
  | PDict "(string \<times> pyval) list"
  | PExc exn
  | PObj string

fun truthy :: "pyval \<Rightarrow> bool" where
  "truthy PNone = False"
| "truthy (PBool b) = b"
| "truthy (PNum n) = (n \<noteq> ''0'')"
| "truthy (PStr s) = (s \<noteq> [])"
| "truthy (PList xs) = (xs \<noteq> [])"
| "truthy (PDict kvs) = (kvs \<noteq> [])"
| "truthy (PExc e) = True"
| "truthy (PObj p) = True"

text \<open>What an f-string field shows for a value (\<^verbatim>\<open>format(v)\<close>).\<close>

fun format_val :: "pyval \<Rightarrow> string" where
  "format_val PNone = ''None''"
| "format_val (PBool b) = (if b then ''True'' else ''False'')"
| "format_val (PNum n) = n"
| "format_val (PStr s) = s"
| "format_val (PExc e) = exn_msg e"
| "format_val (PList xs) = ''[...]''"
| "format_val (PDict kvs) = ''{...}''"
| "format_val (PObj p) = ''<'' @ p @ ''>''"

type_synonym namespace = "string \<rightharpoonup> pyval"

type_synonym environ = "string \<rightharpoonup> string"

text \<open>The built-in names the module relies on, and the exception classes among them.\<close>

definition exception_classes :: "string list" where
  "exception_classes =
    [''BaseException'', ''Exception'', ''ArithmeticError'', ''AssertionError'', ''AttributeError'',
     ''EOFError'', ''ImportError'', ''IndexError'', ''KeyError'', ''KeyboardInterrupt'',
     ''LookupError'', ''MemoryError'', ''ModuleNotFoundError'', ''NameError'',
     ''NotImplementedError'', ''OSError'', ''OverflowError'', ''RecursionError'', ''RuntimeError'',
     ''StopIteration'', ''SyntaxError'', ''SystemExit'', ''TimeoutError'', ''TypeError'',
     ''UnboundLocalError'', ''ValueError'', ''ZeroDivisionError'']"

definition builtins :: "string list" where
  "builtins = exception_classes @
    [''abs'', ''all'', ''any'', ''ascii'', ''bin'', ''bool'', ''breakpoint'', ''bytearray'', ''bytes'',
     ''callable'', ''chr'', ''classmethod'', ''compile'', ''complex'', ''delattr'', ''dict'', ''dir'',
     ''divmod'', ''enumerate'', ''eval'', ''exec'', ''filter'', ''float'', ''format'', ''frozenset'',
     ''getattr'', ''globals'', ''hasattr'', ''hash'', ''help'', ''hex'', ''id'', ''input'', ''int'',
     ''isinstance'', ''issubclass'', ''iter'', ''len'', ''list'', ''locals'', ''map'', ''max'',
     ''memoryview'', ''min'', ''next'', ''object'', ''oct'', ''open'', ''ord'', ''pow'', ''print'',
     ''property'', ''range'', ''repr'', ''reversed'', ''round'', ''set'', ''setattr'', ''slice'',
     ''sorted'', ''staticmethod'', ''str'', ''sum'', ''super'', ''tuple'', ''type'', ''vars'', ''zip'',
     ''__import__'', ''True'', ''False'', ''None'', ''Ellipsis'', ''NotImplemented'', ''__debug__'']"

text \<open>A name is looked up in the module's globals, then in the built-ins; otherwise
  Python raises NameError.\<close>

definition lookup_name :: "namespace \<Rightarrow> string \<Rightarrow> exn + pyval" where
  "lookup_name ns n =
     (case ns n of
        Some v \<Rightarrow> Inr v
      | None \<Rightarrow> if n \<in> set builtins then Inr (PObj n) else Inl (NameError n))"

section \<open>String literals\<close>

text \<open>
  A plain literal is its text. An f-string is compiled by Python into literal pieces and
  replacement fields; every field of this module is a bare name. Both are kept line by line.
\<close>

datatype piece = Lit string | Field string

datatype str_literal = Plain "string list" | FString "piece list list"

fun eval_pieces :: "namespace \<Rightarrow> piece list \<Rightarrow> exn + string" where
  "eval_pieces ns [] = Inr []"
| "eval_pieces ns (Lit s # ps) =
     (case eval_pieces ns ps of Inl e \<Rightarrow> Inl e | Inr t \<Rightarrow> Inr (s @ t))"
| "eval_pieces ns (Field n # ps) =
     (case lookup_name ns n of
        Inl e \<Rightarrow> Inl e
      | Inr v \<Rightarrow> (case eval_pieces ns ps of Inl e \<Rightarrow> Inl e | Inr t \<Rightarrow> Inr (format_val v @ t)))"

fun eval_piece_lines :: "namespace \<Rightarrow> piece list list \<Rightarrow> exn + string list" where
  "eval_piece_lines ns [] = Inr []"
| "eval_piece_lines ns (l # ls) =
     (case eval_pieces ns l of
        Inl e \<Rightarrow> Inl e
      | Inr t \<Rightarrow> (case eval_piece_lines ns ls of Inl e \<Rightarrow> Inl e | Inr ts \<Rightarrow> Inr (t # ts)))"

fun eval_literal :: "namespace \<Rightarrow> str_literal \<Rightarrow> exn + string" where
  "eval_literal ns (Plain ls) = Inr (join_lines ls)"
| "eval_literal ns (FString pls) =
     (case eval_piece_lines ns pls of Inl e \<Rightarrow> Inl e | Inr ts \<Rightarrow> Inr (join_lines ts))"

text \<open>The names an f-string loads, in evaluation order; a plain literal loads none.\<close>

fun piece_fields :: "piece list \<Rightarrow> string list" where
  "piece_fields [] = []"
| "piece_fields (Lit s # ps) = piece_fields ps"
| "piece_fields (Field n # ps) = n # piece_fields ps"

fun literal_fields :: "str_literal \<Rightarrow> string list" where
  "literal_fields (Plain ls) = []"
| "literal_fields (FString pls) = concat (map piece_fields pls)"

text \<open>The text of a literal as written in the source, a field shown in braces.\<close>

fun piece_text :: "piece \<Rightarrow> string" where
  "piece_text (Lit s) = s"
| "piece_text (Field n) = ''{'' @ n @ ''}''"

fun template_lines :: "str_literal \<Rightarrow> string list" where
  "template_lines (Plain ls) = ls"
| "template_lines (FString pls) = map (\<lambda>l. concat (map piece_text l)) pls"

definition mentions :: "string \<Rightarrow> str_literal \<Rightarrow> bool" where
  "mentions p l = contains_str p (join_lines (template_lines l))"

section \<open>The task descriptions\<close>

text \<open>\<^verbatim>\<open>sorting_supervisor_prompt\<close> (lines 126 to 157 of the module), an f-string.\<close>

definition sorting_supervisor_prompt :: str_literal where
  \<open>sorting_supervisor_prompt = FString [
    [],
    [Lit (''Role: As a highly experienced Sorting Supervisor specializing in municipal solid waste (MSW) processing, your primary responsibility is to identify and remove large, non-processable items from MSW at a processing plant in ''), Field ''place'', Lit (''. Your tasks include:'')],
    [],
    [Lit (''Instructions: - Research and understand the process of removing large, non-processable items from MSW in ''), Field ''place'', Lit ('', utilizing available tools to gather detailed insights.'')],
    [Lit ('' - Analyze a provided MSW composition profile, including the percentage of each material category, and determine the proportion of large, non-processable waste within the specified categories, based on ''), Field ''place'', Lit (''-specific data.'')],
    [Lit ('' - Adjust the waste composition by reducing the percentage of the relevant category to account for the removal of large, non-processable items, ensuring only appropriate components are removed as per the process.'')],
    [],
    [Lit (''Tools: You have access to the following tools:'')],
    [Lit ('' - **search_engine_openai**: For searching and retrieving information from OpenAI's web search tool.'')],
    [Lit ('' - **search_engine_duckduckgo**: For searching and retrieving information from DuckDuckGo's search engine.'')],
    [Lit ('' - **exa_search**: For searching and retrieving information from Exa's search engine.'')],
    [],
    [Lit (''**Mandatory Tool Usage**: For all data related to ''), Field ''place'', Lit ([CHR 0x27] @ ''s MSW, including the percentage of non-processable waste, categories of large non-processable items, and the removal process, you MUST use the provided tools to fetch the most recent and accurate information. Do not rely solely on internal knowledge.'')],
    [Lit (''- The % of non processable waste in ''), Field ''place'', Lit ([CHR 0x27] @ ''s Municipal Solid Waste.'')],
    [Lit (''- What are the different large non-processable items that are typically removed from MSW.'')],
    [Lit (''- Also the categories from where we can remove these items.'')],
    [Lit (''- The source links should also be returned along with the information.'')],
    [],
    [Lit (''Output: Provide a comprehensive explanation of:'')],
    [Lit ('' - The process for removing large, non-processable items.'')],
    [Lit ('' - The specific components removed, including the rationale for their removal.'')],
    [Lit ('' - The final waste composition after removal, ensuring all listed components are considered and no components are removed unless specified by the process.'')],
    [Lit ('' - Recalculate the new waste composition, expressing each component as a percentage and normalizing the total to 100%.'')],
    [Lit ('' - Use provided tools to access detailed information on waste composition, the percentage of large, non-processable waste in ''), Field ''place'', Lit ('', and the removal process, ensuring accuracy and relevance to the local context.'')],
    [Lit ('' - Ensure that your analysis is based on credible data for ''), Field ''place'', Lit ('' and that the removal process adheres strictly to the guidelines for large, non-processable items, avoiding any unintended removal of processable components.'')],
    [Lit ('' - Ignore any component that is 0% in the original waste composition.'')],
    [],
    [Lit (''NOTE: - No waste category is considered for recycling or composting in this task. The focus is solely on the removal of large, non-processable items from the waste stream.'')],
    [Lit ('' - Always normalize the new waste composition to 100% after adjustments.'')],
    [Lit ('' - You are only bound to remove large, non-processable items from the waste composition. Do not remove any other components.'')],
    [Lit ('' - If you are removing certain percentage of a component from the waste composition, please mention the percentage removed and Make sure the new waste composition is accurate and normalized to 100%.'')],
    []
  ]\<close>

text \<open>\<^verbatim>\<open>sorting_engineer_prompt\<close> (lines 166 to 195 of the module), a plain string literal.\<close>

definition sorting_engineer_prompt :: str_literal where
  \<open>sorting_engineer_prompt = Plain [
    [],
    ''Role: - As a mechanical sorting engineer specializing in refuse-derived fuel (RDF) production from municipal solid waste (MSW), your expertise involves operating advanced sorting equipment, including magnets for ferrous metals, eddy current separators for non-ferrous metals, glass removal systems, and aggregate/rock removal systems. You are provided with an MSW composition profile detailing the percentage of each material category.'',
    [],
    ''Instructions: - Mechanical sorting is a critical step in the RDF production process, where the goal is to remove unwanted materials from the waste stream to produce a high-quality RDF product.'',
    '' - In Mechanical sorting, we focus on removing non-processable items, that is metals, glass, and aggregates, which can interfere with the RDF production process.'',
    '' - Most of the metal components (few fine metallic might still remain) are removed in the first step of the process, while glass and aggregates are removed in the second step.'',
    '' - Utilize available tools to analyze the provided waste composition and the RDF production process, evaluating how mechanical sorting affects the composition.'',
    [],
    ''Tools: You have access to the following tools:'',
    '' - **search_engine_openai**: For searching and retrieving information from OpenAI's web search tool.'',
    '' - **search_engine_duckduckgo**: For searching and retrieving information from DuckDuckGo's search engine.'',
    '' - **exa_search**: For searching and retrieving information from Exa's search engine.'',
    [],
    ''**Mandatory Tool Usage**: For all data related to {place}'s MSW you MUST use the provided tools to fetch the most recent and accurate information. Do not rely solely on internal knowledge.'',
    ''- To understand to precision of removal of glass and metal removal using the seperation process of mechincal sorting.'',
    ''- Understand the composition and see what compositions can contain metals, glass and aggregates.'',
    [],
    ''Output: Calculate the waste composition after mechanical sorting and RDF production, delivering:'',
    '' - A clear, detailed explanation of the mechanical sorting process, including the equipment used and the sequence of operations.'',
    '' - A list of specific components removed, with a rationale for their removal based on the sorting process and RDF production requirements.'',
    '' - The final waste composition, ensuring all listed components are accounted for and only components specified by the process are removed.'',
    '' - If exact composition data is unavailable, select the closest available composition, providing a justification for your choice.'',
    '' - Recalculate the new waste composition, presenting each component as a percentage and normalizing the total to 100%.'',
    [],
    ''Note: - Verify that no components are removed unless explicitly required by the mechanical sorting and RDF production process, using tools to ensure accuracy and relevance.'',
    '' - Present the final waste composition in a structured format (e.g., a table or dictionary), including the percentage of each material and a summary of the total.'',
    '' - Ensure all analyses are supported by detailed insights from provided tools, maintaining precision and adherence to the mechanical sorting process specific to RDF production.'',
    '' - Remove components that the mechanical sorting process is supposed to remove, including metals, glass, and aggregates.'',
    '' - Make sure the new waste composition is accurate and normalized to 100%.'',
    []
  ]\<close>

text \<open>\<^verbatim>\<open>chlorine_reduction_specialist_prompt\<close> (lines 204 to 224 of the module), a plain string literal.\<close>

definition chlorine_reduction_specialist_prompt :: str_literal where
  \<open>chlorine_reduction_specialist_prompt = Plain [
    [],
    ''Role: Lets do a role play where you are a Chlorine Reduction Specialist, tasked with reducing chlorine content in RDF.'',
    [],
    [],
    ''Instructions: - The Chlorine Specialist uses provided tools to validate efficacy assumptions, predict chlorine content reduction, and ensure the RDF stream meets low-chlorine specifications.'',
    [],
    '' - It refines the waste stream from the Sorting Engineer for downstream processing.'',
    '' - Your main tasks include:'',
    [],
    ''   1. **Analyze the Waste Stream**: Review the waste stream composition provided by the Sorting Engineer, focusing on chlorine content and its impact on RDF quality.'',
    ''   2. **Assess Chlorine Content**: Use the tools to determine the chlorine content in the waste stream, particularly focusing on the plastic category and any other relevant categories.'',
    [],
    ''Tools: You have access to the following tools:'',
    '' - **search_engine_openai**: For searching and retrieving information from OpenAI's web search tool.'',
    '' - **search_engine_duckduckgo**: For searching and retrieving information from DuckDuckGo's search engine.'',
    '' - **exa_search**: For searching and retrieving information from Exa's search engine.'',
    [],
    ''**Mandatory Tool Usage**: For all data related to {place}'s MSW you MUST use the provided tools to fetch the most recent and accurate information. Do not rely solely on internal knowledge.'',
    '' - The % of PVC available in the plastic category.'',
    '' - If any other category has chlorine content.'',
    [],
    ''Note: - The source links should also be returned along with the information.'',
    '' - Make sure the new waste composition is accurate and normalized to 100%.'',
    []
  ]\<close>

text \<open>\<^verbatim>\<open>shredding_purification_technician_prompt\<close> (lines 233 to 257 of the module), a plain string literal.\<close>

definition shredding_purification_technician_prompt :: str_literal where
  \<open>shredding_purification_technician_prompt = Plain [
    [],
    ''Role: - You are a Shredding and purification technician, responsible for shredding and fine metal removal in PDF fluff production.'',
    [],
    ''Instruction: - Research and understand the composition of the waste and what would be the new composition after shredding and removing fine metals from the composition.'',
    '' - Provide a comprehensive explanation of:'',
    ''   a. The process done for shredding and fine metal removal (Ferrous and non ferrous).'',
    ''   b. The specific components removed, including the rationale for their removal.'',
    '' - The final waste composition after removal, ensuring all listed components are considered and no components are removed unless specified by the process.'',
    [],
    ''Tools: You have access to the following tools:'',
    '' - **search_engine_openai**: For searching and retrieving information from OpenAI's web search tool.'',
    '' - **search_engine_duckduckgo**: For searching and retrieving information from DuckDuckGo's search engine.'',
    '' - **exa_search**: For searching and retrieving information from Exa's search engine.'',
    [],
    ''**Mandatory Tool Usage**: For all data related to {place}'s MSW you MUST use the provided tools to fetch the most recent and accurate information. Do not rely solely on internal knowledge.'',
    '' - Use provided tools to access detailed information on waste composition, the percentage of fine metal present in waste composition in {place}, and the removal process, ensuring accuracy and relevance to the local context.'',
    '' - If any other category has chlorine content.'',
    [],
    ''Output: - Recalculate the new waste composition, expressing each component as a percentage and normalizing the total to 100%.'',
    [],
    ''Note:'',
    '' - Ensure that your analysis is based on credible data for {place} and that the removal process adheres strictly to the guidelines for fine metal removal, avoiding any unintended removal of processable components.'',
    '' - You'll only remove components only if they are specified by the process and exist in the waste composition.'',
    '' - Make sure the new waste composition is accurate and normalized to 100%.'',
    []
  ]\<close>

text \<open>\<^verbatim>\<open>R4_process_engineer_prompt\<close> (lines 266 to 310 of the module), an f-string.\<close>

definition R4_process_engineer_prompt :: str_literal where
  \<open>R4_process_engineer_prompt = FString [
    [],
    [Lit (''Role: You are an higly experienced R4 Process Engineer with 10 years of experience handling R4 Machines.'')],
    [],
    [Lit (''The R4 Machine is a specialized piece of equipment used in the recycling industry, particularly for processing waste materials.'')],
    [],
    [Lit (''It converts RDF (Refuse-Derived Fuel) into a solid fuel product that can be used in various applications, including making solid engineered fuel using Refuse-Derived Fuel (RDF).'')],
    [],
    [Lit (''Instruction: The sub processes in the R4 Machines are as follows:'')],
    [Lit ('' 1) This process involves removing moisture from the RDF material before it enters the R4 machine. The vacuum environment helps to evaporate water at lower temperatures.'')],
    [Lit (''    Evacuate the chamber to ''), Field ''r4_negative_pressure'', Lit ('' torr and heat the material to 120-140'' @ [CHR 0xB0] @ ''C. This process is helps evaporate free and bound water and reduce the moisture to below 10%.'')],
    [],
    [Lit ('' 2) Dynamic Organic Repolymerization: This process involves the use of heat and pressure to break down the organic materials in the RDF, converting them into a more stable and energy-dense form.'')],
    [Lit (''    Below are the steps involved in this process:'')],
    [],
    [Lit (''      a) Raise Jacket temperature to ''), Field ''r4_temperature'', Lit ([CHR 0xB0] @ ''C (capable of 260'' @ [CHR 0xB0] @ ''C) via oil heated jacket.'')],
    [Lit (''      b) The RDF core mass reaches ''), Field ''r4_temperature'', Lit ([CHR 0xB0] @ ''C (capable of 260'' @ [CHR 0xB0] @ ''C) over ''), Field ''r4_retention_time'', Lit ('' seconds. A good amount of remaining moisture is vaporised from the RDF in this process.'')],
    [Lit ('' 3) As the temperature increases, different materials in the RDF will begin to break down and release gases. Like light hydrocarbons and gases. If there are PVC plastic in the RDF, they will start to decompose and release HCl gas.'')],
    [Lit (''    Common plastics like polyethylene, polypropylene, polystyrene soften and melt at these temperatures. These become gooey and sticky, which help the RDF to bind together.'')],
    [Lit ('' The heat in R4 Machines breakdown chemical bonds, creating free radicals(highly reactive molecules). Plastics and other organic materials in the RDF can react with these free radicals to form new hydrocarbon-rich chains. This forms a durable, waterproof and hydrocarbon-rich solid fuel.'')],
    [Lit ('' The R4 machines continuously mixes the RDF material to ensure even heating. Also plastic coat and encapasulate fibrous materials like paper, cardboard, wood, etc, which helps to improve the overall quality of the output product.'')],
    [Lit ('' These are the basic steps involved in the dynamic organic repolymerization process. The specific parameters and conditions may vary depending on the type of RDF being processed and the desired properties of the output product.'')],
    [],
    [Lit ('' You need to have an understanding of the chemical and physical properties of the materials being processed, as well as the principles of thermodynamics and reaction kinetics.'')],
    [],
    [Lit ('' You must be able to tell what the results would be if the parameters are changed. For example, if the temperature is increased or decreased, what would be the effect on the output product?'')],
    [],
    [Lit ('' Also, return a detailed explanation of how the values of the properties are calculated based on the process and the composition of the RDF.'')],
    [],
    [Lit ('' All process done in the R4 machine should be mentioned in details and how each factor was considered in the process before the final output is produced.'')],
    [],
    [],
    [Lit (''Tools: You have access to the following tools:'')],
    [Lit ('' - **search_engine_openai**: For searching and retrieving information from OpenAI's web search tool.'')],
    [Lit ('' - **search_engine_duckduckgo**: For searching and retrieving information from DuckDuckGo's search engine.'')],
    [Lit ('' - **exa_search**: For searching and retrieving information from Exa's search engine.'')],
    [],
    [Lit (''**Mandatory Tool Usage**: For all data related to ''), Field ''place'', Lit ([CHR 0x27] @ ''s MSW you MUST use the provided tools to fetch the most recent and accurate information. Do not rely solely on internal knowledge.'')],
    [Lit ('' - Use provided tools to access detailed information about the properties of solid fuels, including moisture content, chlorine content, ash content, calorific value, bulk density, chlorine/sulfur content, and particle size uniformity.'')],
    [],
    [Lit (''Output: The final property and its value should be in a table format with three columns (properties, value, description) the following rows:'')],
    [Lit (''            1) Moisture:'')],
    [],
    [Lit (''            2) Chlorine (Cl):'')],
    [],
    [Lit (''            3) Ash Content:'')],
    [],
    [Lit (''            4) Calorific value (in MJ/kg):'')],
    [],
    [Lit (''            5) particle size uniformity:'')],
    [],
    [],
    [Lit (''Note: - The output doughy and sticky, make sure you do the prediction for the fuel properties based on the current form of the fuel.'')],
    [Lit (''- Never do any task that is not assigned to you or you are not supposed to do.'')],
    [Lit (''- Water bath process is not part of the R4 machine process.'')],
    [Lit (''- The final properties of the solid fuel but be quantified based on the final waste composition and the process it has undergone.'')],
    [Lit (''- Make sure you do the task assigned to you and do not do the task of other agents.'')],
    [Lit (''- Do not assume any process. The process is already defined in the prompt.'')],
    [Lit (''- Provide links to the sources of information used in the process.'')],
    []
  ]\<close>

text \<open>\<^verbatim>\<open>water_bath_process_engineer_prompt\<close> (lines 319 to 353 of the module), a plain string literal.\<close>

definition water_bath_process_engineer_prompt :: str_literal where
  \<open>water_bath_process_engineer_prompt = Plain [
    [],
    ''Role: You are a higly experienced Water bath Process Engineer with expertise in understanding the process of water bath and how the properties of fuel chunks change after they pass through the water bath conveyor.'',
    [],
    [],
    ''Instruction:'',
    ''* Process Description:'',
    '' - The sticky dough fuel product is extruded though a heated die head to 2"x2" chunks. These chunks have a coating of plastic on it making it less prone to damage when introduced to water bath process.'',
    '' - The chunks are dropped into a water bath conveyor, where they are cooled, solidified and surface chlorine is removed.'',
    '' - The water bath is typically maintained at a temperature less than 60'' @ [CHR 0xB0] @ ''C (122-140'' @ [CHR 0xB0] @ ''F) for a duration of less than 5 minutes to ensure proper cooling happens and the surface chlorine is removed.'',
    '' - The water bath process is crucial for ensuring the quality and safety of the final product, as it helps to remove any residual chlorine and solidify the fuel chunks.'',
    ''* Your task is to:'',
    '' 1. Research and understand the water bath process, including its purpose, parameters, and effects on the final product.'',
    '' 2. Analyze the provided fuel property of the material output from R4 machine and determine how the fuel property would be affected after cutting it into 2"x2" chunks and passing it through the water bath conveyor.'',
    '' 3. Calculate the new fuel property composition after the water bath process, delivering:'',
    ''     - A clear, detailed explanation of the water bath process, including the sequence of operations.'',
    ''     - A list of specific fuel property changes, with a rationale for their removal based on the water bath process requirements.'',
    ''     - The final fuel composition, ensuring all listed components are accounted for and only components specified by the process are removed.'',
    '' 4. Verify that no components or changed that are removed unless explicitly required by the water bath process, using tools to ensure accuracy and relevance.'',
    '' 5. Calulcate how cutting the fuel into 2"x2" chunks affects the fuel property composition like how much will the bulk density affect and how much will the calorific value increase by with explantion.'',
    '' 6. The final fuel property composition in a structured format (e.g., a table or dictionary), including a summary of the properties.'',
    ''    Ensure all analyses are supported by detailed insights from provided tools, maintaining precision and adherence to the water bath process specific to RDF production.'',
    [],
    ''Output: Provide a comprehensive explanation of: Tools: You have access to the following tools:'',
    '' - **search_engine_openai**: For searching and retrieving information from OpenAI's web search tool.'',
    '' - **search_engine_duckduckgo**: For searching and retrieving information from DuckDuckGo's search engine.'',
    '' - **exa_search**: For searching and retrieving information from Exa's search engine.'',
    [],
    ''**Mandatory Tool Usage**: For all data related to {place}'s MSW you MUST use the provided tools to fetch the most recent and accurate information. Do not rely solely on internal knowledge.'',
    '' - Use provided tools to understand how the water bath process affects the fuel properties, including moisture content, chlorine content, ash content, calorific value, bulk density, chlorine/sulfur content, and particle size uniformity.'',
    ''   - The process done for water bath.'',
    ''   - The specific components removed, including the rationale for their removal.'',
    ''   - The final fuel composition after removal, ensuring all listed components are considered and no components are removed unless specified by the process.'',
    ''   -  Also, return a detailed explanation of how the values of the properties are calculated based on the process and the composition of the RDF.'',
    [],
    ''Note: - From the doughy product extruded into 2"x2" chunks, it is important to understand how the water bath process affects the final product.'',
    '' - Make sure the output is in a quantified format, like a table or dictionary.'',
    []
  ]\<close>

text \<open>\<^verbatim>\<open>process_engineer_prompt\<close> (lines 362 to 390 of the module), a plain string literal.\<close>

definition process_engineer_prompt :: str_literal where
  \<open>process_engineer_prompt = Plain [
    [],
    ''Role: As a process engineer with over 20 years of expertise in waste management, your role is to oversee the processing of municipal solid waste (MSW) to produce refuse-derived fuel (RDF). You are provided with a waste composition profile, including the percentage of each material category. Your task is to manage the waste processing workflow by coordinating with different specialized agents:'',
    [],
    ''Agents available: '',
    '' - Sorting Supervisor Agent: This agent analyzes the MSW composition to identify and remove large, non-processable items, providing an updated composition after their removal.'',
    '' - Sorting Engineer Agent: This agent processes the composition received from the Sorting Supervisor Agent, evaluating the waste composition and applying the RDF production process to further refine it.'',
    '' - Chlorine-Reduction Specialist Agent: This agent focuses on reducing chlorine content in the RDF stream, ensuring it meets low-chlorine specifications.'',
    '' - Shredding and Purification Technician Agent: This agent is responsible for shredding the RDF material and removing fine metals, ensuring the final product is suitable for downstream processing.'',
    '' - R4 Process Engineer Agent: This agent operates the R4 machine, converting RDF into a solid fuel product through dynamic organic repolymerization.'',
    '' - Water Bath Process Engineer Agent: This agent manages the water bath process, cooling and solidifying the RDF product while removing surface chlorine.'',
    [],
    ''Instructions:'',
    '' - Supervising the sequential processing of the waste composition only through agents mentioned in the workflow.'',
    '' - Ensuring that each agent executes their specific task in the correct order, providing the detailed steps taken for the input and output for each step. '',
    '' - Decisions should never be made by internal knowledge alone; always use the provided tools to gather accurate and relevant information for each step of the process.'',
    '' - Run only the agents that have **yes** in front of them, and skip the ones with **no** in front of them.'',
    [],
    ''Output:'',
    '' - Providing a detailed explanation of each process, the components removed, the rationale for their removal, and the final waste composition.'',
    '' - Ensuring all components in the provided composition are considered, with only the appropriate components removed as per each process.'',
    '' - Recalculating the final waste composition, expressing each component as a percentage and normalizing the total to 100%.'',
    [],
    ''Note: - Ensure that the processes are executed accurately, with clear coordination between agents, and that the final composition reflects the combined effects of removing non-processable items and applying RDF production, without removing any components not specified by the respective processes.'',
    ''- Do not instruct the Agents on how to do a particular task. The sequence of each agent executing will be controlled by you and also the correct input and output is taken care by you.'',
    ''- Make sure you run all the agents that have **yes** in front of them and dont ignore the approved (yes) agents'',
    [],
    ''- You are only bound to run the agents that have **yes** in front of them and skip the ones with **no** in front of them.'',
    ''- Never do any task that is not assigned to you. You are ibky assigned to oversee the process and ensure that the agents execute their tasks correctly.'',
    [],
    [],
    []
  ]\<close>

section \<open>Module-level code\<close>

text \<open>
  The expressions and statements that occur at the top level of \<^verbatim>\<open>agent.py\<close>.
  A call evaluates the callee, then the positional arguments, then the keyword arguments,
  left to right. Function bodies are not evaluated by a \<^verbatim>\<open>def\<close>.
\<close>

datatype expr =
    Name string
  | Constant pyval
  | StrLit str_literal
  | Attribute expr string
  | ListE "expr list"
  | UnaryNot expr
  | Call expr "expr list" "(string \<times> expr) list"

datatype stmt =
    Import "(string \<times> string) list"
  | Assign string expr
  | ExprStmt expr
  | If expr "stmt list"
  | Raise expr
  | ClassDef string "expr list" "(string \<times> string) list"
  | FunctionDef string "expr list"

text \<open>
  Calls: \<^verbatim>\<open>os.environ.get(k)\<close> reads the process environment; calling a built-in
  exception class with a message builds the exception; any other library callable returns
  an opaque object.
\<close>

fun call_value :: "environ \<Rightarrow> pyval \<Rightarrow> pyval list \<Rightarrow> exn + pyval" where
  "call_value env (PObj f) args =
     (if f = ''os.environ.get'' then
        (case args of
           [PStr k] \<Rightarrow> (case env k of None \<Rightarrow> Inr PNone | Some v \<Rightarrow> Inr (PStr v))
         | _ \<Rightarrow> Inl (TypeError ''get expected a string key''))
      else if f \<in> set exception_classes then
        (case args of
           [PStr m] \<Rightarrow> Inr (PExc (Exn f m))
         | _ \<Rightarrow> Inr (PExc (Exn f [])))
      else Inr (PObj (f @ ''()'')))"
| "call_value env v args = Inl (TypeError ''object is not callable'')"

fun attribute_value :: "pyval \<Rightarrow> string \<Rightarrow> exn + pyval" where
  "attribute_value (PObj p) a = Inr (PObj (p @ ''.'' @ a))"
| "attribute_value v a = Inl (AttributeError a)"

fun eval_expr :: "environ \<Rightarrow> namespace \<Rightarrow> expr \<Rightarrow> exn + pyval"
  and eval_exprs :: "environ \<Rightarrow> namespace \<Rightarrow> expr list \<Rightarrow> exn + pyval list"
  and eval_keywords :: "environ \<Rightarrow> namespace \<Rightarrow> (string \<times> expr) list \<Rightarrow> exn + pyval list"
where
  "eval_expr env ns (Name n) = lookup_name ns n"
| "eval_expr env ns (Constant v) = Inr v"
| "eval_expr env ns (StrLit l) =
     (case eval_literal ns l of Inl e \<Rightarrow> Inl e | Inr s \<Rightarrow> Inr (PStr s))"
| "eval_expr env ns (Attribute e a) =
     (case eval_expr env ns e of Inl x \<Rightarrow> Inl x | Inr v \<Rightarrow> attribute_value v a)"
| "eval_expr env ns (ListE es) =
     (case eval_exprs env ns es of Inl x \<Rightarrow> Inl x | Inr vs \<Rightarrow> Inr (PList vs))"
| "eval_expr env ns (UnaryNot e) =
     (case eval_expr env ns e of Inl x \<Rightarrow> Inl x | Inr v \<Rightarrow> Inr (PBool (\<not> truthy v)))"
| "eval_expr env ns (Call f args kws) =
     (case eval_expr env ns f of
        Inl x \<Rightarrow> Inl x
      | Inr fv \<Rightarrow>
          (case eval_exprs env ns args of
             Inl x \<Rightarrow> Inl x
           | Inr vs \<Rightarrow>
               (case eval_keywords env ns kws of
                  Inl x \<Rightarrow> Inl x
                | Inr ws \<Rightarrow> call_value env fv (vs @ ws))))"
| "eval_exprs env ns [] = Inr []"
| "eval_exprs env ns (e # es) =
     (case eval_expr env ns e of
        Inl x \<Rightarrow> Inl x
      | Inr v \<Rightarrow> (case eval_exprs env ns es of Inl x \<Rightarrow> Inl x | Inr vs \<Rightarrow> Inr (v # vs)))"
| "eval_keywords env ns [] = Inr []"
| "eval_keywords env ns ((k, e) # kws) =
     (case eval_expr env ns e of
        Inl x \<Rightarrow> Inl x
      | Inr v \<Rightarrow> (case eval_keywords env ns kws of Inl x \<Rightarrow> Inl x | Inr vs \<Rightarrow> Inr (v # vs)))"

fun bind_imports :: "namespace \<Rightarrow> (string \<times> string) list \<Rightarrow> namespace" where
  "bind_imports ns [] = ns"
| "bind_imports ns ((n, path) # is) = bind_imports (ns(n \<mapsto> PObj path)) is"

fun eval_annotations :: "namespace \<Rightarrow> (string \<times> string) list \<Rightarrow> exn + unit" where
  "eval_annotations ns [] = Inr ()"
| "eval_annotations ns ((field, ty) # fs) =
     (case lookup_name ns ty of Inl x \<Rightarrow> Inl x | Inr v \<Rightarrow> eval_annotations ns fs)"

text \<open>Running a statement gives the updated globals, or the exception that ends the import
  of the module.\<close>

fun exec_stmt :: "environ \<Rightarrow> namespace \<Rightarrow> stmt \<Rightarrow> exn + namespace"
  and exec_block :: "environ \<Rightarrow> namespace \<Rightarrow> stmt list \<Rightarrow> exn + namespace"
where
  "exec_stmt env ns (Import is) = Inr (bind_imports ns is)"
| "exec_stmt env ns (Assign x e) =
     (case eval_expr env ns e of Inl ex \<Rightarrow> Inl ex | Inr v \<Rightarrow> Inr (ns(x \<mapsto> v)))"
| "exec_stmt env ns (ExprStmt e) =
     (case eval_expr env ns e of Inl ex \<Rightarrow> Inl ex | Inr v \<Rightarrow> Inr ns)"
| "exec_stmt env ns (If c body) =
     (case eval_expr env ns c of
        Inl ex \<Rightarrow> Inl ex
      | Inr v \<Rightarrow> if truthy v then exec_block env ns body else Inr ns)"
| "exec_stmt env ns (Raise e) =
     (case eval_expr env ns e of
        Inl ex \<Rightarrow> Inl ex
      | Inr (PExc ex) \<Rightarrow> Inl ex
      | Inr v \<Rightarrow> Inl (TypeError ''exceptions must derive from BaseException''))"
| "exec_stmt env ns (ClassDef c bases anns) =
     (case eval_exprs env ns bases of
        Inl ex \<Rightarrow> Inl ex
      | Inr vs \<Rightarrow>
          (case eval_annotations ns anns of
             Inl ex \<Rightarrow> Inl ex
           | Inr u \<Rightarrow> Inr (ns(c \<mapsto> PObj c))))"
| "exec_stmt env ns (FunctionDef f decorators) =
     (case eval_exprs env ns decorators of
        Inl ex \<Rightarrow> Inl ex
      | Inr vs \<Rightarrow> Inr (ns(f \<mapsto> PObj f)))"
| "exec_block env ns [] = Inr ns"
| "exec_block env ns (s # ss) =
     (case exec_stmt env ns s of Inl ex \<Rightarrow> Inl ex | Inr ns' \<Rightarrow> exec_block env ns' ss)"

text \<open>The names a statement can bind, whatever path the execution takes.\<close>

fun binds :: "stmt \<Rightarrow> string list" and binds_block :: "stmt list \<Rightarrow> string list" where
  "binds (Import is) = map fst is"
| "binds (Assign x e) = [x]"
| "binds (ExprStmt e) = []"
| "binds (If c body) = binds_block body"
| "binds (Raise e) = []"
| "binds (ClassDef c bases anns) = [c]"
| "binds (FunctionDef f decorators) = [f]"
| "binds_block [] = []"
| "binds_block (s # ss) = binds s @ binds_block ss"

section \<open>Tools\<close>

text \<open>
  The three search tools (lines 51 to 122). Each takes the module's globals at the time
  of the call and the behaviour of the remote service as parameters, and gives the log
  records it writes together with its outcome: \<open>Inr\<close> the value returned, \<open>Inl\<close> the
  exception that leaves the function.
\<close>

type_synonym log = "(string \<times> string) list"

type_synonym 'a backend = "string \<Rightarrow> exn + 'a"

text \<open>\<^verbatim>\<open>except Exception\<close> catches every exception but those of the classes that do not
  derive from \<^verbatim>\<open>Exception\<close>.\<close>

definition caught_by_except_Exception :: "exn \<Rightarrow> bool" where
  "caught_by_except_Exception e =
     (exn_class e \<notin> set [''BaseException'', ''KeyboardInterrupt'', ''SystemExit'', ''GeneratorExit''])"

text \<open>The handler of each tool: an exception it catches is logged at error level; caught or
  not, the exception leaves the function unchanged (\<^verbatim>\<open>raise\<close>).\<close>

definition log_and_reraise :: "log \<Rightarrow> string \<Rightarrow> exn \<Rightarrow> log \<times> (exn + pyval)" where
  "log_and_reraise lg prefix e =
     (if caught_by_except_Exception e then (lg @ [(''error'', prefix @ exn_msg e)], Inl e)
      else (lg, Inl e))"

definition search_engine_openai :: "namespace \<Rightarrow> pyval backend \<Rightarrow> string \<Rightarrow> log \<times> (exn + pyval)" where
  "search_engine_openai ns responses_create query =
     (case lookup_name ns ''logger'' of
        Inl e \<Rightarrow> ([], Inl e)
      | Inr lg \<Rightarrow>
          (case attribute_value lg ''info'' of
             Inl e \<Rightarrow> ([], Inl e)
           | Inr info \<Rightarrow>
               (case (case lookup_name ns ''client'' of
                        Inl e \<Rightarrow> Inl e
                      | Inr c \<Rightarrow>
                          (case attribute_value c ''responses'' of
                             Inl e \<Rightarrow> Inl e
                           | Inr r \<Rightarrow> responses_create query)) of
                  Inr response \<Rightarrow>
                    ([(''info'', ''Executing OpenAI search for query: '' @ query),
                      (''info'', ''OpenAI search completed successfully'')], Inr response)
                | Inl e \<Rightarrow>
                    log_and_reraise [(''info'', ''Executing OpenAI search for query: '' @ query)]
                      ''OpenAI search failed: '' e)))"

definition search_engine_duckduckgo :: "namespace \<Rightarrow> string backend \<Rightarrow> string \<Rightarrow> log \<times> (exn + pyval)" where
  "search_engine_duckduckgo ns run query =
     (case lookup_name ns ''logger'' of
        Inl e \<Rightarrow> ([], Inl e)
      | Inr lg \<Rightarrow>
          (case attribute_value lg ''info'' of
             Inl e \<Rightarrow> ([], Inl e)
           | Inr info \<Rightarrow>
               (case (case lookup_name ns ''DuckDuckGoSearchRun'' of
                        Inl e \<Rightarrow> Inl e
                      | Inr cls \<Rightarrow>
                          (case call_value Map.empty cls [] of
                             Inl e \<Rightarrow> Inl e
                           | Inr search \<Rightarrow> run query)) of
                  Inr response \<Rightarrow>
                    ([(''info'', ''Executing DuckDuckGo search for query: '' @ query),
                      (''info'', ''DuckDuckGo search completed successfully'')],
                     Inr (PStr response))
                | Inl e \<Rightarrow>
                    log_and_reraise [(''info'', ''Executing DuckDuckGo search for query: '' @ query)]
                      ''DuckDuckGo search failed: '' e)))"

text \<open>A chat completion of the Exa endpoint: its choices, each a message with its content
  and, when the service sent one, its citations attribute.\<close>

record message =
  content :: pyval
  citations :: "pyval option"

type_synonym completion = "message list"

text \<open>Lines 116 to 119: with no choices both entries are placeholder strings; otherwise
  they are read from the first message, and reading a missing attribute raises.\<close>

definition exa_info_dict :: "completion \<Rightarrow> exn + pyval" where
  "exa_info_dict choices =
     (case choices of
        [] \<Rightarrow> Inr (PDict [(''content'', PStr ''No content found.''),
                          (''citations'', PStr ''No citations found.'')])
      | m # ms \<Rightarrow>
          (case citations m of
             None \<Rightarrow> Inl (AttributeError ''citations'')
           | Some c \<Rightarrow> Inr (PDict [(''content'', content m), (''citations'', c)])))"

definition exa_search :: "namespace \<Rightarrow> completion backend \<Rightarrow> string \<Rightarrow> log \<times> (exn + pyval)" where
  "exa_search ns chat_create query =
     (case lookup_name ns ''logger'' of
        Inl e \<Rightarrow> ([], Inl e)
      | Inr lg \<Rightarrow>
          (case attribute_value lg ''info'' of
             Inl e \<Rightarrow> ([], Inl e)
           | Inr info \<Rightarrow>
               (case (case lookup_name ns ''OpenAI'' of
                        Inl e \<Rightarrow> Inl e
                      | Inr cls \<Rightarrow>
                          (case call_value Map.empty cls [] of
                             Inl e \<Rightarrow> Inl e
                           | Inr client \<Rightarrow>
                               (case chat_create query of
                                  Inl e \<Rightarrow> Inl e
                                | Inr completion \<Rightarrow> exa_info_dict completion))) of
                  Inr info_dict \<Rightarrow>
                    ([(''info'', ''Executing Exa search for query: '' @ query),
                      (''info'', ''Exa search completed successfully'')], Inr info_dict)
                | Inl e \<Rightarrow>
                    log_and_reraise [(''info'', ''Executing Exa search for query: '' @ query)]
                      ''Exa search failed: '' e)))"

section \<open>Agents and the supervisor\<close>

text \<open>
  \<^verbatim>\<open>create_react_agent(model=..., tools=[...], name=..., prompt=...)\<close>: the four
  arguments as the module writes them, with the variable the prompt is read from and the
  literal that variable is bound to.
\<close>

record agent =
  model :: string
  tools :: "string list"
  name :: string
  prompt_var :: string
  prompt :: str_literal

definition sorting_supervisor_agent :: agent where
  "sorting_supervisor_agent =
     \<lparr>model = ''llm'',
      tools = [''search_engine_duckduckgo'', ''exa_search'', ''search_engine_openai''],
      name = ''sorting_supervisor'',
      prompt_var = ''sorting_supervisor_prompt'',
      prompt = sorting_supervisor_prompt\<rparr>"

definition sorting_engineer_agent :: agent where
  "sorting_engineer_agent =
     \<lparr>model = ''llm'',
      tools = [''search_engine_duckduckgo'', ''exa_search'', ''search_engine_openai''],
      name = ''sorting_engineer'',
      prompt_var = ''sorting_engineer_prompt'',
      prompt = sorting_engineer_prompt\<rparr>"

definition chlorine_reduction_specialist_agent :: agent where
  "chlorine_reduction_specialist_agent =
     \<lparr>model = ''llm'',
      tools = [''search_engine_duckduckgo'', ''exa_search'', ''search_engine_openai''],
      name = ''chlorine_reduction_specialist'',
      prompt_var = ''chlorine_reduction_specialist_prompt'',
      prompt = chlorine_reduction_specialist_prompt\<rparr>"

definition shredding_purification_technician_agent :: agent where
  "shredding_purification_technician_agent =
     \<lparr>model = ''llm'',
      tools = [''search_engine_duckduckgo'', ''exa_search'', ''search_engine_openai''],
      name = ''shredding_purification_technician'',
      prompt_var = ''shredding_purification_technician_prompt'',
      prompt = shredding_purification_technician_prompt\<rparr>"

definition R4_process_engineer_agent :: agent where
  "R4_process_engineer_agent =
     \<lparr>model = ''llm_o3'',
      tools = [''search_engine_openai''],
      name = ''R4_process_engineer'',
      prompt_var = ''R4_process_engineer_prompt'',
      prompt = R4_process_engineer_prompt\<rparr>"

definition water_bath_process_engineer_agent :: agent where
  "water_bath_process_engineer_agent =
     \<lparr>model = ''llm_o3'',
      tools = [''search_engine_openai'', ''search_engine_duckduckgo'', ''exa_search''],
      name = ''water_bath_process_engineer'',
      prompt_var = ''water_bath_process_engineer_prompt'',
      prompt = water_bath_process_engineer_prompt\<rparr>"

text \<open>The six workers in the order the module declares them, which is the order of the
  physical process and of the supervisor's own agent list (lines 366 to 371).\<close>

definition pipeline :: "agent list" where
  "pipeline =
     [sorting_supervisor_agent, sorting_engineer_agent, chlorine_reduction_specialist_agent,
      shredding_purification_technician_agent, R4_process_engineer_agent,
      water_bath_process_engineer_agent]"


text \<open>The retrieval tools the module defines.\<close>

definition retrieval_tools :: "string list" where
  "retrieval_tools = [''search_engine_openai'', ''search_engine_duckduckgo'', ''exa_search'']"

text \<open>The tools a task description tells its reader it has access to: the tool names it
  prints in bold.\<close>

definition advertised_tools :: "str_literal \<Rightarrow> string list" where
  "advertised_tools l = filter (\<lambda>t. mentions (''**'' @ t @ ''**'') l) retrieval_tools"

text \<open>\<^verbatim>\<open>create_supervisor([...], model=llm_o3, output_mode="last_message",
  prompt=process_engineer_prompt, add_handoff_back_messages=True)\<close>, lines 392 to 398.\<close>

record supervisor =
  agents :: "agent list"
  supervisor_model :: string
  output_mode :: string
  supervisor_prompt_var :: string
  supervisor_prompt :: str_literal
  add_handoff_back_messages :: bool

definition process_engineer_workflow :: supervisor where
  "process_engineer_workflow =
     \<lparr>agents =
        [sorting_engineer_agent, sorting_supervisor_agent, chlorine_reduction_specialist_agent,
         shredding_purification_technician_agent, R4_process_engineer_agent,
         water_bath_process_engineer_agent],
      supervisor_model = ''llm_o3'',
      output_mode = ''last_message'',
      supervisor_prompt_var = ''process_engineer_prompt'',
      supervisor_prompt = process_engineer_prompt,
      add_handoff_back_messages = True\<rparr>"

text \<open>The pydantic class of lines 42 to 47: its fields with their annotations.\<close>

definition FuelComposition :: "(string \<times> string) list" where
  "FuelComposition =
     [(''calorific_value'', ''float''),
      (''moisture'', ''float''),
      (''chlorine'', ''float''),
      (''ash'', ''float''),
      (''particle_size_uniformity'', ''float'')]"

section \<open>The module\<close>

definition prompt_stmt :: "agent \<Rightarrow> stmt" where
  "prompt_stmt a = Assign (prompt_var a) (StrLit (prompt a))"

definition agent_stmt :: "agent \<Rightarrow> stmt" where
  "agent_stmt a =
     Assign (name a @ ''_agent'')
       (Call (Name ''create_react_agent'') []
          [(''model'', Name (model a)),
           (''tools'', ListE (map Name (tools a))),
           (''name'', Constant (PStr (name a))),
           (''prompt'', Name (prompt_var a))])"

definition supervisor_stmt :: "string \<Rightarrow> supervisor \<Rightarrow> stmt" where
  "supervisor_stmt x s =
     Assign x
       (Call (Name ''create_supervisor'') [ListE (map (\<lambda>a. Name (name a @ ''_agent'')) (agents s))]
          [(''model'', Name (supervisor_model s)),
           (''output_mode'', Constant (PStr (output_mode s))),
           (''prompt'', Name (supervisor_prompt_var s)),
           (''add_handoff_back_messages'', Constant (PBool (add_handoff_back_messages s)))])"

definition log_stmt :: "string \<Rightarrow> string \<Rightarrow> stmt" where
  "log_stmt level msg = ExprStmt (Call (Attribute (Name ''logger'') level) [Constant (PStr msg)] [])"

text \<open>Lines 1 to 47: imports, the API key check, the language models and the class.\<close>

definition module_head :: "stmt list" where
  "module_head =
     [Import [(''os'', ''os'')],
      Import [(''logging'', ''logging'')],
      Import [(''FastAPI'', ''fastapi.FastAPI''), (''HTTPException'', ''fastapi.HTTPException''),
              (''status'', ''fastapi.status'')],
      Import [(''CORSMiddleware'', ''fastapi.middleware.cors.CORSMiddleware'')],
      Import [(''BaseModel'', ''pydantic.BaseModel'')],
      Import [(''Dict'', ''typing.Dict''), (''Literal'', ''typing.Literal'')],
      Import [(''uvicorn'', ''uvicorn'')],
      Import [(''ChatOpenAI'', ''langchain_openai.ChatOpenAI'')],
      Import [(''create_react_agent'', ''langgraph.prebuilt.create_react_agent'')],
      Import [(''create_supervisor'', ''langgraph_supervisor.create_supervisor'')],
      Import [(''OpenAI'', ''openai.OpenAI'')],
      Import [(''tool'', ''langchain_core.tools.tool'')],
      Import [(''DuckDuckGoSearchRun'', ''langchain_community.tools.DuckDuckGoSearchRun'')],
      Import [(''LangSmithClient'', ''langsmith.Client'')],
      Import [(''traceable'', ''langsmith.traceable'')],
      Import [(''wrap_openai'', ''langsmith.wrappers.wrap_openai'')],
      Assign ''openai_key''
        (Call (Attribute (Attribute (Name ''os'') ''environ'') ''get'')
           [Constant (PStr ''OPENAI_API_KEY'')] []),
      If (UnaryNot (Name ''openai_key''))
        [log_stmt ''error'' ''OPENAI_API_KEY environment variable is not set'',
         Raise (Call (Name ''ValueError'')
                  [Constant (PStr ''OPENAI_API_KEY environment variable is not set'')] [])],
      Assign ''llm''
        (Call (Name ''ChatOpenAI'') []
           [(''openai_api_key'', Name ''openai_key''),
            (''model'', Constant (PStr ''gpt-4.1'')),
            (''temperature'', Constant (PNum ''0'')),
            (''top_p'', Constant (PNum ''1'')),
            (''frequency_penalty'', Constant (PNum ''0'')),
            (''presence_penalty'', Constant (PNum ''0''))]),
      Assign ''llm_o3''
        (Call (Name ''ChatOpenAI'') []
           [(''openai_api_key'', Name ''openai_key''), (''model'', Constant (PStr ''o3''))]),
      Assign ''client'' (Call (Name ''OpenAI'') [] [(''api_key'', Name ''openai_key'')]),
      ClassDef ''FuelComposition'' [Name ''BaseModel''] FuelComposition]"

text \<open>Lines 51 to 122: the three decorated tool functions.\<close>

definition module_tools :: "stmt list" where
  "module_tools =
     [FunctionDef ''search_engine_openai'' [Name ''tool''],
      FunctionDef ''search_engine_duckduckgo'' [Name ''tool''],
      FunctionDef ''exa_search'' [Name ''tool'']]"

text \<open>Lines 126 to 359: each worker's prompt, then the worker.\<close>

definition module_agents :: "stmt list" where
  "module_agents = concat (map (\<lambda>a. [prompt_stmt a, agent_stmt a]) pipeline)"

text \<open>Lines 362 to 402: the supervisor and the compiled workflow.\<close>

definition module_workflow :: "stmt list" where
  "module_workflow =
     [Assign ''process_engineer_prompt'' (StrLit process_engineer_prompt),
      log_stmt ''info'' ''Creating process engineer workflow'',
      supervisor_stmt ''process_engineer_workflow'' process_engineer_workflow,
      log_stmt ''info'' ''Compiling process engineer workflow'',
      Assign ''app_workflow''
        (Call (Attribute (Name ''process_engineer_workflow'') ''compile'') [] [])]"

definition agent_module :: "stmt list" where
  "agent_module = module_head @ module_tools @ module_agents @ module_workflow"

text \<open>Importing the module in a process environment: the globals it ends with, or the
  exception it stops at.\<close>

definition run_module :: "environ \<Rightarrow> exn + namespace" where
  "run_module env = exec_block env Map.empty agent_module"

section \<open>Running the workers\<close>

text \<open>
  A worker is a language model bound to a task description and tools. The model is a
  parameter: given the model name, the task description, the tool names and the incoming
  state it gives the outgoing state or fails. The worker hands the description over as the
  value its literal has in the module's globals and returns what the model gives back.
\<close>

type_synonym 'st engine = "string \<Rightarrow> string \<Rightarrow> string list \<Rightarrow> 'st \<Rightarrow> exn + 'st"

definition run_agent :: "namespace \<Rightarrow> 'st engine \<Rightarrow> agent \<Rightarrow> 'st \<Rightarrow> exn + 'st" where
  "run_agent ns eng a st =
     (case eval_literal ns (prompt a) of
        Inl e \<Rightarrow> Inl e
      | Inr task \<Rightarrow> eng (model a) task (tools a) st)"

text \<open>
  \<^verbatim>\<open>create_supervisor\<close> is library code the repository does not contain. The loop
  below is what the supervisor prompt (lines 373 to 388) says of it: the supervisor, a
  language model as well, controls the sequence of the agents, takes care of the input
  each agent is given, and writes the final composition itself. From its prompt, the names
  of the agents it may hand off to, the request, the incoming state and the history so far
  it either hands an input to a named agent or finishes with its own answer. The agent
  handed to runs to completion before the supervisor decides again. The number of
  supervisor turns is bounded by the graph's recursion limit.
\<close>

datatype 'st decision = Handoff string 'st | Finish 'st

datatype run_error =
    RecursionLimit
  | SupervisorFailed exn
  | NoSuchAgent string
  | WorkerFailed string exn

type_synonym 'st history = "(string \<times> 'st) list"

type_synonym ('rq, 'st) chooser =
  "string \<Rightarrow> string list \<Rightarrow> 'rq \<Rightarrow> 'st \<Rightarrow> 'st history \<Rightarrow> 'st decision"

fun execute ::
  "nat \<Rightarrow> namespace \<Rightarrow> supervisor \<Rightarrow> ('rq, 'st) chooser \<Rightarrow> 'st engine \<Rightarrow> 'rq \<Rightarrow> 'st \<Rightarrow> 'st history
    \<Rightarrow> run_error + ('st \<times> 'st history)" where
  "execute 0 ns sv decide eng rq st h = Inl RecursionLimit"
| "execute (Suc n) ns sv decide eng rq st h =
     (case eval_literal ns (supervisor_prompt sv) of
        Inl e \<Rightarrow> Inl (SupervisorFailed e)
      | Inr task \<Rightarrow>
          (case decide task (map name (agents sv)) rq st h of
             Finish answer \<Rightarrow> Inr (answer, h)
           | Handoff nm input \<Rightarrow>
               (case find (\<lambda>a. name a = nm) (agents sv) of
                  None \<Rightarrow> Inl (NoSuchAgent nm)
                | Some a \<Rightarrow>
                    (case run_agent ns eng a input of
                       Inl e \<Rightarrow> Inl (WorkerFailed nm e)
                     | Inr out \<Rightarrow> execute n ns sv decide eng rq st (h @ [(nm, out)])))))"

text \<open>The names an expression or a statement reads.\<close>

fun expr_names :: "expr \<Rightarrow> string list"
  and exprs_names :: "expr list \<Rightarrow> string list"
  and keywords_names :: "(string \<times> expr) list \<Rightarrow> string list"
where
  "expr_names (Name n) = [n]"
| "expr_names (Constant v) = []"
| "expr_names (StrLit l) = literal_fields l"
| "expr_names (Attribute e a) = expr_names e"
| "expr_names (ListE es) = exprs_names es"
| "expr_names (UnaryNot e) = expr_names e"
| "expr_names (Call f args kws) = expr_names f @ exprs_names args @ keywords_names kws"
| "exprs_names [] = []"
| "exprs_names (e # es) = expr_names e @ exprs_names es"
| "keywords_names [] = []"
| "keywords_names ((k, e) # kws) = expr_names e @ keywords_names kws"

fun stmt_names :: "stmt \<Rightarrow> string list" and block_names :: "stmt list \<Rightarrow> string list" where
  "stmt_names (Import is) = []"
| "stmt_names (Assign x e) = expr_names e"
| "stmt_names (ExprStmt e) = expr_names e"
| "stmt_names (If c body) = expr_names c @ block_names body"
| "stmt_names (Raise e) = expr_names e"
| "stmt_names (ClassDef c bases anns) = exprs_names bases @ map snd anns"
| "stmt_names (FunctionDef f decorators) = exprs_names decorators"
| "block_names [] = []"
| "block_names (s # ss) = stmt_names s @ block_names ss"

text \<open>The functions and classes a block of statements defines.\<close>

fun defined :: "stmt \<Rightarrow> string list" and defined_block :: "stmt list \<Rightarrow> string list" where
  "defined (Import is) = []"
| "defined (Assign x e) = []"
| "defined (ExprStmt e) = []"
| "defined (If c body) = defined_block body"
| "defined (Raise e) = []"
| "defined (ClassDef c bases anns) = [c]"
| "defined (FunctionDef f decorators) = [f]"
| "defined_block [] = []"
| "defined_block (s # ss) = defined s @ defined_block ss"


section \<open>The state handed between stages\<close>

text \<open>
  Modelled from the spec: the category mapping of CompositionState, from category name to
  percentage, which the module itself never declares (its workers exchange messages).
  Percentages are real numbers; rounding is not modelled.
\<close>

type_synonym categories = "(string \<times> real) list"

definition total :: "categories \<Rightarrow> real" where
  "total cs = sum_list (map snd cs)"

text \<open>The percentage held by a category: what the mapping records for it, nothing when it
  is absent. The mapping is kept as a list of entries, so the entries of the category are
  added up, as \<open>total\<close> adds up all entries.\<close>

definition share :: "categories \<Rightarrow> string \<Rightarrow> real" where
  "share cs k = sum_list (map snd (filter (\<lambda>(k', v). k' = k) cs))"


text \<open>Modelled from the spec: the payload of a stage is either a category mapping or a
  fuel-property record.\<close>

datatype payload = Categories categories | FuelProperties "(string \<times> real) list"



section \<open>Concrete inputs\<close>

definition loaded_globals :: namespace where
  "loaded_globals =
     [''logger'' \<mapsto> PObj ''logging.Logger'',
      ''client'' \<mapsto> PObj ''openai.OpenAI()'',
      ''OpenAI'' \<mapsto> PObj ''openai.OpenAI'',
      ''DuckDuckGoSearchRun'' \<mapsto> PObj ''langchain_community.tools.DuckDuckGoSearchRun'']"

definition timed_out :: exn where
  "timed_out = Exn ''TimeoutError'' ''timed out''"

definition unreachable :: "'a backend" where
  "unreachable q = Inl timed_out"

definition answering :: "string backend" where
  "answering q = Inr (''results for '' @ q)"

definition without_choices :: "completion backend" where
  "without_choices q = Inr []"

definition uncited :: "completion backend" where
  "uncited q = Inr [\<lparr>content = PStr ''PVC is a minor share of plastics'', citations = None\<rparr>]"



text \<open>Engines: one removes metal and glass and leaves the rest as it is, one does the same
  and renormalizes, one reports metal whatever it was given, one answers with a category
  mapping, one returns its input, one counts the stages it has been through.\<close>

definition without_metal_glass :: "categories \<Rightarrow> categories" where
  "without_metal_glass cs = filter (\<lambda>(k, v). k \<noteq> ''metal'' \<and> k \<noteq> ''glass'') cs"

definition removing :: "categories engine" where
  "removing m task ts cs = Inr (without_metal_glass cs)"



definition answering_categories :: "payload engine" where
  "answering_categories m task ts p = Inr (Categories [(''plastic'', 60), (''paper'', 40)])"







section \<open>Facts about substring search\<close>

lemma starts_with_iff: "starts_with p s \<longleftrightarrow> (\<exists>b. s = p @ b)"
  by (induction p s rule: starts_with.induct) auto

lemma contains_str_iff: "contains_str p s \<longleftrightarrow> (\<exists>a b. s = a @ p @ b)"
proof (induction s)
  case Nil
  then show ?case by (auto simp: starts_with_iff)
next
  case (Cons c cs)
  show ?case
  proof
    assume "contains_str p (c # cs)"
    then consider "starts_with p (c # cs)" | "contains_str p cs" by auto
    then show "\<exists>a b. c # cs = a @ p @ b"
    proof cases
      case 1
      then obtain b where "c # cs = p @ b" by (auto simp: starts_with_iff)
      then have "c # cs = [] @ p @ b" by simp
      then show ?thesis by blast
    next
      case 2
      then obtain a b where "cs = a @ p @ b" using Cons.IH by auto
      then have "c # cs = (c # a) @ p @ b" by simp
      then show ?thesis by blast
    qed
  next
    assume "\<exists>a b. c # cs = a @ p @ b"
    then obtain a b where ab: "c # cs = a @ p @ b" by blast
    show "contains_str p (c # cs)"
    proof (cases a)
      case Nil
      with ab have "starts_with p (c # cs)" by (auto simp: starts_with_iff)
      then show ?thesis by simp
    next
      case (Cons x xs)
      with ab have "cs = xs @ p @ b" by simp
      then have "contains_str p cs" using Cons.IH by blast
      then show ?thesis by simp
    qed
  qed
qed

lemma contains_str_embed: "contains_str p s \<Longrightarrow> contains_str p (a @ s @ b)"
proof -
  assume "contains_str p s"
  then obtain x y where "s = x @ p @ y" by (auto simp: contains_str_iff)
  then have "a @ s @ b = (a @ x) @ p @ (y @ b)" by simp
  then show ?thesis unfolding contains_str_iff by blast
qed

lemma join_lines_Cons: "join_lines (l # ls) = (if ls = [] then l else l @ CHR 0x0A # join_lines ls)"
  by (cases ls) auto

lemma join_lines_has_line: "l \<in> set ls \<Longrightarrow> \<exists>a b. join_lines ls = a @ l @ b"
proof (induction ls)
  case Nil
  then show ?case by simp
next
  case (Cons x xs)
  show ?case
  proof (cases "l = x")
    case True
    have "join_lines (x # xs) = [] @ x @ (if xs = [] then [] else CHR 0x0A # join_lines xs)"
      by (simp add: join_lines_Cons)
    with True show ?thesis by blast
  next
    case False
    with Cons.prems have lx: "l \<in> set xs" by simp
    then obtain a b where ab: "join_lines xs = a @ l @ b" using Cons.IH by blast
    from lx have "xs \<noteq> []" by auto
    then have "join_lines (x # xs) = (x @ CHR 0x0A # a) @ l @ b"
      using ab by (simp add: join_lines_Cons)
    then show ?thesis by blast
  qed
qed

text \<open>A pattern found in one line is found in the joined text.\<close>

lemma contains_in_line:
  assumes "i < length ls" and "contains_str p (ls ! i)"
  shows "contains_str p (join_lines ls)"
proof -
  from assms(1) have "ls ! i \<in> set ls" by simp
  then obtain a b where "join_lines ls = a @ (ls ! i) @ b"
    using join_lines_has_line by blast
  with assms(2) show ?thesis by (simp add: contains_str_embed)
qed

lemma mentions_line:
  "i < length (template_lines l) \<Longrightarrow> contains_str p (template_lines l ! i) \<Longrightarrow> mentions p l"
  unfolding mentions_def by (rule contains_in_line)

text \<open>A pattern without a newline that occurs in two texts joined by a newline occurs in
  one of them.\<close>

lemma contains_str_across:
  assumes c: "c \<notin> set p" and ne: "p \<noteq> []" and hit: "contains_str p (l @ c # r)"
  shows "contains_str p l \<or> contains_str p r"
proof -
  from hit obtain a b where ab: "l @ c # r = a @ p @ b"
    by (auto simp: contains_str_iff)
  then obtain us where "(l = a @ us \<and> us @ c # r = p @ b) \<or> (l @ us = a \<and> c # r = us @ p @ b)"
    by (auto simp: append_eq_append_conv2)
  then show ?thesis
  proof
    assume h: "l = a @ us \<and> us @ c # r = p @ b"
    then obtain vs where "(us = p @ vs \<and> vs @ c # r = b) \<or> (us @ vs = p \<and> c # r = vs @ b)"
      by (auto simp: append_eq_append_conv2)
    then show ?thesis
    proof
      assume "us = p @ vs \<and> vs @ c # r = b"
      with h have "l = a @ p @ vs" by simp
      then show ?thesis unfolding contains_str_iff by blast
    next
      assume k: "us @ vs = p \<and> c # r = vs @ b"
      show ?thesis
      proof (cases vs)
        case Nil
        with k h have "l = a @ p @ []" by simp
        then show ?thesis unfolding contains_str_iff by blast
      next
        case (Cons v ws)
        with k have "c \<in> set p" by auto
        with c show ?thesis by simp
      qed
    qed
  next
    assume h: "l @ us = a \<and> c # r = us @ p @ b"
    show ?thesis
    proof (cases us)
      case Nil
      with h ne have "c \<in> set p" by (cases p) auto
      with c show ?thesis by simp
    next
      case (Cons u ws)
      with h have "r = ws @ p @ b" by simp
      then show ?thesis unfolding contains_str_iff by blast
    qed
  qed
qed

lemma contains_join_lines:
  assumes "CHR 0x0A \<notin> set p" and "p \<noteq> []" and "contains_str p (join_lines ls)"
  shows "list_ex (contains_str p) ls"
  using assms(3)
proof (induction ls)
  case Nil
  with assms(2) show ?case by (cases p) auto
next
  case (Cons l ls)
  show ?case
  proof (cases "ls = []")
    case True
    with Cons.prems show ?thesis by simp
  next
    case False
    with Cons.prems have "contains_str p (l @ CHR 0x0A # join_lines ls)"
      by (simp add: join_lines_Cons)
    then have "contains_str p l \<or> contains_str p (join_lines ls)"
      using assms(1,2) by (rule contains_str_across[rotated 2])
    with Cons.IH show ?thesis by auto
  qed
qed

text \<open>So a one-line pattern that no line contains is not mentioned at all.\<close>

lemma not_mentioned:
  "CHR 0x0A \<notin> set p \<Longrightarrow> p \<noteq> [] \<Longrightarrow> \<not> list_ex (contains_str p) (template_lines l)
    \<Longrightarrow> \<not> mentions p l"
  unfolding mentions_def using contains_join_lines by blast

section \<open>Facts about the module\<close>

lemmas agent_defs = sorting_supervisor_agent_def sorting_engineer_agent_def
  chlorine_reduction_specialist_agent_def shredding_purification_technician_agent_def
  R4_process_engineer_agent_def water_bath_process_engineer_agent_def

lemmas module_defs = agent_module_def module_head_def module_tools_def module_agents_def
  module_workflow_def pipeline_def prompt_stmt_def agent_stmt_def supervisor_stmt_def log_stmt_def

lemma unbound_not_builtin:
  "''logger'' \<notin> set builtins" "''place'' \<notin> set builtins"
  "''r4_negative_pressure'' \<notin> set builtins" "''r4_temperature'' \<notin> set builtins"
  "''r4_retention_time'' \<notin> set builtins"
  by (simp_all add: builtins_def exception_classes_def)

lemma used_builtins:
  "''ValueError'' \<in> set builtins" "''float'' \<in> set builtins"
  "''ValueError'' \<in> set exception_classes"
  by (simp_all add: builtins_def exception_classes_def)

lemma sorting_supervisor_prompt_needs_place:
  "lookup_name ns ''place'' = Inl e \<Longrightarrow> eval_literal ns sorting_supervisor_prompt = Inl e"
  by (simp add: sorting_supervisor_prompt_def)

lemma sorting_supervisor_prompt_fields:
  "set (literal_fields sorting_supervisor_prompt) = {''place''}"
  by (simp add: sorting_supervisor_prompt_def)

lemma R4_process_engineer_prompt_fields:
  "set (literal_fields R4_process_engineer_prompt) =
     {''r4_negative_pressure'', ''r4_temperature'', ''r4_retention_time'', ''place''}"
  by (simp add: R4_process_engineer_prompt_def insert_commute)

lemma never_bound:
  "''logger'' \<notin> set (binds_block agent_module)"
  "''place'' \<notin> set (binds_block agent_module)"
  "''r4_negative_pressure'' \<notin> set (binds_block agent_module)"
  "''r4_temperature'' \<notin> set (binds_block agent_module)"
  "''r4_retention_time'' \<notin> set (binds_block agent_module)"
  by (simp_all add: module_defs process_engineer_workflow_def agent_defs)

lemma run_module_key_unset:
  "env ''OPENAI_API_KEY'' = None \<Longrightarrow> run_module env = Inl (NameError ''logger'')"
  by (simp add: run_module_def module_defs lookup_name_def unbound_not_builtin)

lemma run_module_key_empty:
  "env ''OPENAI_API_KEY'' = Some [] \<Longrightarrow> run_module env = Inl (NameError ''logger'')"
  by (simp add: run_module_def module_defs lookup_name_def unbound_not_builtin)

lemma run_module_key_set:
  "env ''OPENAI_API_KEY'' = Some (c # cs) \<Longrightarrow> run_module env = Inl (NameError ''place'')"
  by (simp add: run_module_def module_defs lookup_name_def unbound_not_builtin used_builtins
      agent_defs FuelComposition_def sorting_supervisor_prompt_needs_place)

text \<open>The plain literals evaluate to their own text in any namespace.\<close>

lemma sorting_engineer_prompt_value:
  "eval_literal ns sorting_engineer_prompt = Inr (join_lines (template_lines sorting_engineer_prompt))"
  "literal_fields sorting_engineer_prompt = []"
  unfolding sorting_engineer_prompt_def
  by (simp_all only: eval_literal.simps template_lines.simps literal_fields.simps)

lemma chlorine_reduction_specialist_prompt_value:
  "eval_literal ns chlorine_reduction_specialist_prompt = Inr (join_lines (template_lines chlorine_reduction_specialist_prompt))"
  "literal_fields chlorine_reduction_specialist_prompt = []"
  unfolding chlorine_reduction_specialist_prompt_def
  by (simp_all only: eval_literal.simps template_lines.simps literal_fields.simps)

lemma shredding_purification_technician_prompt_value:
  "eval_literal ns shredding_purification_technician_prompt = Inr (join_lines (template_lines shredding_purification_technician_prompt))"
  "literal_fields shredding_purification_technician_prompt = []"
  unfolding shredding_purification_technician_prompt_def
  by (simp_all only: eval_literal.simps template_lines.simps literal_fields.simps)

lemma water_bath_process_engineer_prompt_value:
  "eval_literal ns water_bath_process_engineer_prompt = Inr (join_lines (template_lines water_bath_process_engineer_prompt))"
  "literal_fields water_bath_process_engineer_prompt = []"
  unfolding water_bath_process_engineer_prompt_def
  by (simp_all only: eval_literal.simps template_lines.simps literal_fields.simps)

lemma process_engineer_prompt_value:
  "eval_literal ns process_engineer_prompt = Inr (join_lines (template_lines process_engineer_prompt))"
  "literal_fields process_engineer_prompt = []"
  unfolding process_engineer_prompt_def
  by (simp_all only: eval_literal.simps template_lines.simps literal_fields.simps)

section \<open>Facts about runs\<close>



section \<open>What the task descriptions say\<close>

lemma sorting_engineer_says_place: "mentions ''{place}'' sorting_engineer_prompt"
  by (rule mentions_line [of 13]) (simp_all add: sorting_engineer_prompt_def)

lemma chlorine_says_place: "mentions ''{place}'' chlorine_reduction_specialist_prompt"
  by (rule mentions_line [of 17]) (simp_all add: chlorine_reduction_specialist_prompt_def)

lemma shredding_says_place: "mentions ''{place}'' shredding_purification_technician_prompt"
  by (rule mentions_line [of 14]) (simp_all add: shredding_purification_technician_prompt_def)

lemma water_bath_says_place: "mentions ''{place}'' water_bath_process_engineer_prompt"
  by (rule mentions_line [of 27]) (simp_all add: water_bath_process_engineer_prompt_def)














lemma R4_advertises_search_engine_openai: "mentions ''**search_engine_openai**'' R4_process_engineer_prompt"
  by (rule mentions_line [of 32]) (simp_all add: R4_process_engineer_prompt_def)

lemma R4_advertises_search_engine_duckduckgo: "mentions ''**search_engine_duckduckgo**'' R4_process_engineer_prompt"
  by (rule mentions_line [of 33]) (simp_all add: R4_process_engineer_prompt_def)

lemma R4_advertises_exa_search: "mentions ''**exa_search**'' R4_process_engineer_prompt"
  by (rule mentions_line [of 34]) (simp_all add: R4_process_engineer_prompt_def)

lemma R4_row_1: "mentions ''1) Moisture:'' R4_process_engineer_prompt"
  by (rule mentions_line [of 40]) (simp_all add: R4_process_engineer_prompt_def)

lemma R4_row_2: "mentions ''2) Chlorine (Cl):'' R4_process_engineer_prompt"
  by (rule mentions_line [of 42]) (simp_all add: R4_process_engineer_prompt_def)

lemma R4_row_3: "mentions ''3) Ash Content:'' R4_process_engineer_prompt"
  by (rule mentions_line [of 44]) (simp_all add: R4_process_engineer_prompt_def)

lemma R4_row_4: "mentions ''4) Calorific value (in MJ/kg):'' R4_process_engineer_prompt"
  by (rule mentions_line [of 46]) (simp_all add: R4_process_engineer_prompt_def)

lemma R4_row_5: "mentions ''5) particle size uniformity:'' R4_process_engineer_prompt"
  by (rule mentions_line [of 48]) (simp_all add: R4_process_engineer_prompt_def)

lemma R4_no_sixth_row: "\<not> mentions ''6)'' R4_process_engineer_prompt"
  by (rule not_mentioned) (simp_all add: R4_process_engineer_prompt_def)

lemma R4_says_from_waste_composition: "mentions ''based on the final waste composition'' R4_process_engineer_prompt"
  by (rule mentions_line [of 54]) (simp_all add: R4_process_engineer_prompt_def)

lemma water_bath_says_R4_output: "mentions ''fuel property of the material output from R4 machine'' water_bath_process_engineer_prompt"
  by (rule mentions_line [of 12]) (simp_all add: water_bath_process_engineer_prompt_def)

lemma water_bath_says_bulk_density: "mentions ''bulk density'' water_bath_process_engineer_prompt"
  by (rule mentions_line [of 18]) (simp_all add: water_bath_process_engineer_prompt_def)







lemma R4_advertised_tools:
  "advertised_tools R4_process_engineer_prompt =
     [''search_engine_openai'', ''search_engine_duckduckgo'', ''exa_search'']"
  by (simp add: advertised_tools_def retrieval_tools_def R4_advertises_search_engine_openai
      R4_advertises_search_engine_duckduckgo R4_advertises_exa_search)

section \<open>Importing the module\<close>

text \<open>
  Claim C1. In every process environment, whether or not \<^verbatim>\<open>OPENAI_API_KEY\<close> is set,
  evaluating the module stops with a NameError and never reaches the end, so
  \<^verbatim>\<open>app_workflow\<close> is never bound: without a key the name \<^verbatim>\<open>logger\<close> is read first,
  with a key the first f-string reads \<^verbatim>\<open>place\<close>. The f-string prompts read
  \<^verbatim>\<open>place\<close>, \<^verbatim>\<open>r4_negative_pressure\<close>, \<^verbatim>\<open>r4_temperature\<close> and
  \<^verbatim>\<open>r4_retention_time\<close>; none of these names, nor \<^verbatim>\<open>logger\<close>, is bound by any
  statement of the module or is a built-in.
\<close>

theorem module_import_raises_NameError:
  "run_module env =
     Inl (NameError (if env ''OPENAI_API_KEY'' = None \<or> env ''OPENAI_API_KEY'' = Some []
                     then ''logger'' else ''place''))
   \<and> set (literal_fields sorting_supervisor_prompt) = {''place''}
   \<and> set (literal_fields R4_process_engineer_prompt) =
        {''r4_negative_pressure'', ''r4_temperature'', ''r4_retention_time'', ''place''}
   \<and> ''logger'' \<notin> set (binds_block agent_module) \<union> set builtins
   \<and> ''place'' \<notin> set (binds_block agent_module) \<union> set builtins
   \<and> ''r4_negative_pressure'' \<notin> set (binds_block agent_module) \<union> set builtins
   \<and> ''r4_temperature'' \<notin> set (binds_block agent_module) \<union> set builtins
   \<and> ''r4_retention_time'' \<notin> set (binds_block agent_module) \<union> set builtins"
proof -
  have "run_module env =
     Inl (NameError (if env ''OPENAI_API_KEY'' = None \<or> env ''OPENAI_API_KEY'' = Some []
                     then ''logger'' else ''place''))"
  proof (cases "env ''OPENAI_API_KEY''")
    case None
    then show ?thesis by (simp add: run_module_key_unset)
  next
    case (Some v)
    show ?thesis
    proof (cases v)
      case Nil
      with Some show ?thesis by (simp add: run_module_key_empty)
    next
      case (Cons c cs)
      with Some show ?thesis by (simp add: run_module_key_set)
    qed
  qed
  then show ?thesis
    by (simp add: sorting_supervisor_prompt_fields R4_process_engineer_prompt_fields
        never_bound unbound_not_builtin)
qed

section \<open>The location placeholder\<close>

text \<open>
  Claim C10. The task descriptions of mechanical sorting, chlorine reduction, shredding and
  cooling are plain string literals: they have no replacement field, they evaluate in every
  namespace to their own text, that text contains the characters \<^verbatim>\<open>{place}\<close>, and it
  is the text the worker hands to the reasoning engine. The other two descriptions, bulky-item
  removal and thermal conversion, are f-strings that read the name \<^verbatim>\<open>place\<close>.
\<close>

theorem place_not_interpolated:
  "(\<exists>task. eval_literal ns (prompt sorting_engineer_agent) = Inr task
       \<and> contains_str ''{place}'' task
       \<and> run_agent ns eng sorting_engineer_agent st
           = eng (model sorting_engineer_agent) task (tools sorting_engineer_agent) st)
   \<and> (\<exists>task. eval_literal ns (prompt chlorine_reduction_specialist_agent) = Inr task
       \<and> contains_str ''{place}'' task
       \<and> run_agent ns eng chlorine_reduction_specialist_agent st
           = eng (model chlorine_reduction_specialist_agent) task
               (tools chlorine_reduction_specialist_agent) st)
   \<and> (\<exists>task. eval_literal ns (prompt shredding_purification_technician_agent) = Inr task
       \<and> contains_str ''{place}'' task
       \<and> run_agent ns eng shredding_purification_technician_agent st
           = eng (model shredding_purification_technician_agent) task
               (tools shredding_purification_technician_agent) st)
   \<and> (\<exists>task. eval_literal ns (prompt water_bath_process_engineer_agent) = Inr task
       \<and> contains_str ''{place}'' task
       \<and> run_agent ns eng water_bath_process_engineer_agent st
           = eng (model water_bath_process_engineer_agent) task
               (tools water_bath_process_engineer_agent) st)
   \<and> literal_fields (prompt sorting_engineer_agent) = []
   \<and> literal_fields (prompt chlorine_reduction_specialist_agent) = []
   \<and> literal_fields (prompt shredding_purification_technician_agent) = []
   \<and> literal_fields (prompt water_bath_process_engineer_agent) = []
   \<and> ''place'' \<in> set (literal_fields (prompt sorting_supervisor_agent))
   \<and> ''place'' \<in> set (literal_fields (prompt R4_process_engineer_agent))"
proof -
  have a: "\<exists>task. eval_literal ns (prompt sorting_engineer_agent) = Inr task
       \<and> contains_str ''{place}'' task
       \<and> run_agent ns eng sorting_engineer_agent st
           = eng (model sorting_engineer_agent) task (tools sorting_engineer_agent) st"
    using sorting_engineer_says_place
    by (simp add: run_agent_def sorting_engineer_agent_def sorting_engineer_prompt_value
        mentions_def)
  have b: "\<exists>task. eval_literal ns (prompt chlorine_reduction_specialist_agent) = Inr task
       \<and> contains_str ''{place}'' task
       \<and> run_agent ns eng chlorine_reduction_specialist_agent st
           = eng (model chlorine_reduction_specialist_agent) task
               (tools chlorine_reduction_specialist_agent) st"
    using chlorine_says_place
    by (simp add: run_agent_def chlorine_reduction_specialist_agent_def
        chlorine_reduction_specialist_prompt_value mentions_def)
  have c: "\<exists>task. eval_literal ns (prompt shredding_purification_technician_agent) = Inr task
       \<and> contains_str ''{place}'' task
       \<and> run_agent ns eng shredding_purification_technician_agent st
           = eng (model shredding_purification_technician_agent) task
               (tools shredding_purification_technician_agent) st"
    using shredding_says_place
    by (simp add: run_agent_def shredding_purification_technician_agent_def
        shredding_purification_technician_prompt_value mentions_def)
  have d: "\<exists>task. eval_literal ns (prompt water_bath_process_engineer_agent) = Inr task
       \<and> contains_str ''{place}'' task
       \<and> run_agent ns eng water_bath_process_engineer_agent st
           = eng (model water_bath_process_engineer_agent) task
               (tools water_bath_process_engineer_agent) st"
    using water_bath_says_place
    by (simp add: run_agent_def water_bath_process_engineer_agent_def
        water_bath_process_engineer_prompt_value mentions_def)
  have e: "literal_fields (prompt sorting_engineer_agent) = []"
    "literal_fields (prompt chlorine_reduction_specialist_agent) = []"
    "literal_fields (prompt shredding_purification_technician_agent) = []"
    "literal_fields (prompt water_bath_process_engineer_agent) = []"
    by (simp_all add: agent_defs sorting_engineer_prompt_value
        chlorine_reduction_specialist_prompt_value shredding_purification_technician_prompt_value
        water_bath_process_engineer_prompt_value)
  have f: "''place'' \<in> set (literal_fields (prompt sorting_supervisor_agent))"
    "''place'' \<in> set (literal_fields (prompt R4_process_engineer_agent))"
    by (simp_all add: agent_defs sorting_supervisor_prompt_fields R4_process_engineer_prompt_fields)
  from a b c d e f show ?thesis by blast
qed

section \<open>The tools bound to each worker\<close>

text \<open>
  Claim C7 asks for at least two retrieval backends in every worker's tool set. The
  thermal-conversion worker is bound to one tool only, although its own task description
  announces all three and the five other workers are bound to all three.
\<close>

theorem R4_bound_to_one_tool:
  "tools R4_process_engineer_agent = [''search_engine_openai'']
   \<and> length (tools R4_process_engineer_agent) = 1
   \<and> advertised_tools (prompt R4_process_engineer_agent)
       = [''search_engine_openai'', ''search_engine_duckduckgo'', ''exa_search'']
   \<and> map (\<lambda>a. length (tools a)) pipeline = [3, 3, 3, 3, 1, 3]"
  by (simp add: pipeline_def agent_defs R4_advertised_tools)

section \<open>The fuel-property record\<close>

text \<open>
  Claim C9 says the thermal-conversion and the cooling stage consume and produce a
  fuel-property record and not a category mapping. The workers pass on whatever the engine
  answers: here the cooling stage is given fuel properties and returns a category mapping.
\<close>

theorem cooling_stage_returns_categories:
  "run_agent Map.empty answering_categories water_bath_process_engineer_agent
     (FuelProperties [(''moisture'', 8), (''chlorine'', 0.4), (''ash'', 12),
                      (''calorific_value'', 21), (''particle_size_uniformity'', 0.9)])
   = Inr (Categories [(''plastic'', 60), (''paper'', 40)])"
  by (simp add: run_agent_def water_bath_process_engineer_agent_def
      water_bath_process_engineer_prompt_value answering_categories_def)

text \<open>
  Claim C9, amended. The module declares the record \<^verbatim>\<open>FuelComposition\<close> with exactly
  the five fields calorific value, moisture, chlorine, ash and particle-size uniformity, all
  floats, and no statement of the module reads that name afterwards: no stage is bound to
  it. The thermal-conversion task description asks for a table of exactly these five
  properties, rows 1 to 5 and no sixth, worked out from the waste composition; the cooling
  task description takes the fuel property coming out of the R4 machine and also asks about
  bulk density.
\<close>

theorem FuelComposition_declared_not_bound:
  "map fst FuelComposition
     = [''calorific_value'', ''moisture'', ''chlorine'', ''ash'', ''particle_size_uniformity'']
   \<and> set (map fst FuelComposition)
     = {''moisture'', ''chlorine'', ''ash'', ''calorific_value'', ''particle_size_uniformity''}
   \<and> set (map snd FuelComposition) = {''float''}
   \<and> ''FuelComposition'' \<in> set (binds_block agent_module)
   \<and> ''FuelComposition'' \<notin> set (block_names agent_module)
   \<and> mentions ''1) Moisture:'' R4_process_engineer_prompt
   \<and> mentions ''2) Chlorine (Cl):'' R4_process_engineer_prompt
   \<and> mentions ''3) Ash Content:'' R4_process_engineer_prompt
   \<and> mentions ''4) Calorific value (in MJ/kg):'' R4_process_engineer_prompt
   \<and> mentions ''5) particle size uniformity:'' R4_process_engineer_prompt
   \<and> \<not> mentions ''6)'' R4_process_engineer_prompt
   \<and> mentions ''based on the final waste composition'' R4_process_engineer_prompt
   \<and> mentions ''fuel property of the material output from R4 machine''
        water_bath_process_engineer_prompt
   \<and> mentions ''bulk density'' water_bath_process_engineer_prompt"
proof -
  have fields: "map fst FuelComposition
     = [''calorific_value'', ''moisture'', ''chlorine'', ''ash'', ''particle_size_uniformity'']"
    "set (map snd FuelComposition) = {''float''}"
    by (simp_all add: FuelComposition_def)
  have "set (map fst FuelComposition)
     = {''moisture'', ''chlorine'', ''ash'', ''calorific_value'', ''particle_size_uniformity''}"
    unfolding fields(1) by auto
  moreover have "''FuelComposition'' \<in> set (binds_block agent_module)"
    by (simp add: module_defs)
  moreover have "''FuelComposition'' \<notin> set (block_names agent_module)"
    by (simp add: module_defs process_engineer_workflow_def agent_defs FuelComposition_def
        sorting_supervisor_prompt_fields R4_process_engineer_prompt_fields
        sorting_engineer_prompt_value chlorine_reduction_specialist_prompt_value
        shredding_purification_technician_prompt_value water_bath_process_engineer_prompt_value
        process_engineer_prompt_value)
  ultimately show ?thesis
    using fields R4_row_1 R4_row_2 R4_row_3 R4_row_4 R4_row_5 R4_no_sixth_row
      R4_says_from_waste_composition water_bath_says_R4_output water_bath_says_bulk_density
    by simp
qed

section \<open>The search tools\<close>

lemma lookup_name_cases:
  "lookup_name ns n = Inl e \<Longrightarrow> e = NameError n"
  by (auto simp: lookup_name_def split: option.splits if_splits)

lemma attribute_value_cases:
  "attribute_value v a = Inl e \<Longrightarrow> e = AttributeError a"
  by (cases v) auto

lemma call_value_cases:
  "call_value env v args = Inl e \<Longrightarrow> exn_class e = ''TypeError''"
  by (cases v) (auto simp: TypeError_def split: if_splits list.splits pyval.splits option.splits)

lemma own_exception_classes:
  "exn_class (NameError n) = ''NameError''"
  "exn_class (AttributeError a) = ''AttributeError''"
  by (simp_all add: NameError_def AttributeError_def)

lemma lookup_loaded_globals:
  "lookup_name loaded_globals ''logger'' = Inr (PObj ''logging.Logger'')"
  "lookup_name loaded_globals ''client'' = Inr (PObj ''openai.OpenAI()'')"
  "lookup_name loaded_globals ''OpenAI'' = Inr (PObj ''openai.OpenAI'')"
  "lookup_name loaded_globals ''DuckDuckGoSearchRun''
     = Inr (PObj ''langchain_community.tools.DuckDuckGoSearchRun'')"
  by (simp_all add: lookup_name_def loaded_globals_def)

lemma library_classes_callable:
  "call_value Map.empty (PObj ''openai.OpenAI'') [] = Inr (PObj ''openai.OpenAI()'')"
  "call_value Map.empty (PObj ''langchain_community.tools.DuckDuckGoSearchRun'') []
     = Inr (PObj ''langchain_community.tools.DuckDuckGoSearchRun()'')"
  by (simp_all add: exception_classes_def)

lemma log_and_reraise_raises: "snd (log_and_reraise lg prefix e) = Inl e"
  by (simp add: log_and_reraise_def)

text \<open>
  Claim C8 says every failing call, a malformed response included, reaches the caller as an
  error. An Exa completion without choices is not treated as a failure: the tool logs
  success and returns a dictionary of placeholder strings.
\<close>

theorem empty_completion_returned_as_success:
  "exa_search loaded_globals without_choices ''share of PVC in plastic waste''
     = ([(''info'', ''Executing Exa search for query: share of PVC in plastic waste''),
         (''info'', ''Exa search completed successfully'')],
        Inr (PDict [(''content'', PStr ''No content found.''),
                    (''citations'', PStr ''No citations found.'')]))"
  by (simp add: exa_search_def lookup_loaded_globals library_classes_callable
      without_choices_def exa_info_dict_def)

text \<open>
  Claim C8, amended. Every exception raised inside a search tool leaves the tool as an
  exception and never as a returned value: an exception of the remote call, and the
  AttributeError of reading the citations of an Exa message that has none. When the
  globals the tool reads are bound to library objects it is the very exception that was
  raised, logged at error level if it derives from Exception, and raised again unchanged.
  An Exa completion without choices is not a failure for the tool: it logs success and
  returns the placeholder dictionary.
\<close>

theorem tool_exceptions_propagate:
  "(responses_create q = Inl e \<longrightarrow> isl (snd (search_engine_openai ns responses_create q)))
   \<and> (run q = Inl e \<longrightarrow> isl (snd (search_engine_duckduckgo ns run q)))
   \<and> (chat_create q = Inl e \<longrightarrow> isl (snd (exa_search ns chat_create q)))
   \<and> (chat_uncited q = Inr (m # ms) \<and> citations m = None \<longrightarrow>
        isl (snd (exa_search ns chat_uncited q)))
   \<and> (responses_create q = Inl e \<and> ns ''logger'' = Some (PObj lg) \<and> ns ''client'' = Some (PObj cl)
        \<longrightarrow> search_engine_openai ns responses_create q
          = (if caught_by_except_Exception e
             then ([(''info'', ''Executing OpenAI search for query: '' @ q),
                    (''error'', ''OpenAI search failed: '' @ exn_msg e)], Inl e)
             else ([(''info'', ''Executing OpenAI search for query: '' @ q)], Inl e)))
   \<and> (run q = Inl e \<and> ns ''logger'' = Some (PObj lg) \<and> ns ''DuckDuckGoSearchRun'' = Some d
        \<and> call_value Map.empty d [] = Inr search
        \<longrightarrow> search_engine_duckduckgo ns run q
          = (if caught_by_except_Exception e
             then ([(''info'', ''Executing DuckDuckGo search for query: '' @ q),
                    (''error'', ''DuckDuckGo search failed: '' @ exn_msg e)], Inl e)
             else ([(''info'', ''Executing DuckDuckGo search for query: '' @ q)], Inl e)))
   \<and> (chat_create q = Inl e \<and> ns ''logger'' = Some (PObj lg) \<and> ns ''OpenAI'' = Some oa
        \<and> call_value Map.empty oa [] = Inr client
        \<longrightarrow> exa_search ns chat_create q
          = (if caught_by_except_Exception e
             then ([(''info'', ''Executing Exa search for query: '' @ q),
                    (''error'', ''Exa search failed: '' @ exn_msg e)], Inl e)
             else ([(''info'', ''Executing Exa search for query: '' @ q)], Inl e)))
   \<and> (chat_empty q = Inr [] \<and> ns ''logger'' = Some (PObj lg) \<and> ns ''OpenAI'' = Some oa
        \<and> call_value Map.empty oa [] = Inr client
        \<longrightarrow> exa_search ns chat_empty q
          = ([(''info'', ''Executing Exa search for query: '' @ q),
              (''info'', ''Exa search completed successfully'')],
             Inr (PDict [(''content'', PStr ''No content found.''),
                         (''citations'', PStr ''No citations found.'')])))"
proof -
  have 1: "responses_create q = Inl e \<longrightarrow> isl (snd (search_engine_openai ns responses_create q))"
    by (auto simp: search_engine_openai_def log_and_reraise_raises split: sum.splits)
  have 2: "run q = Inl e \<longrightarrow> isl (snd (search_engine_duckduckgo ns run q))"
    by (auto simp: search_engine_duckduckgo_def log_and_reraise_raises split: sum.splits)
  have 3: "chat_create q = Inl e \<longrightarrow> isl (snd (exa_search ns chat_create q))"
    by (auto simp: exa_search_def log_and_reraise_raises split: sum.splits)
  have 4: "chat_uncited q = Inr (m # ms) \<and> citations m = None \<longrightarrow>
        isl (snd (exa_search ns chat_uncited q))"
    by (auto simp: exa_search_def exa_info_dict_def log_and_reraise_raises
        split: sum.splits option.splits)
  have 5: "responses_create q = Inl e \<and> ns ''logger'' = Some (PObj lg) \<and> ns ''client'' = Some (PObj cl)
        \<longrightarrow> search_engine_openai ns responses_create q
          = (if caught_by_except_Exception e
             then ([(''info'', ''Executing OpenAI search for query: '' @ q),
                    (''error'', ''OpenAI search failed: '' @ exn_msg e)], Inl e)
             else ([(''info'', ''Executing OpenAI search for query: '' @ q)], Inl e))"
    by (simp add: search_engine_openai_def lookup_name_def log_and_reraise_def)
  have 6: "run q = Inl e \<and> ns ''logger'' = Some (PObj lg) \<and> ns ''DuckDuckGoSearchRun'' = Some d
        \<and> call_value Map.empty d [] = Inr search
        \<longrightarrow> search_engine_duckduckgo ns run q
          = (if caught_by_except_Exception e
             then ([(''info'', ''Executing DuckDuckGo search for query: '' @ q),
                    (''error'', ''DuckDuckGo search failed: '' @ exn_msg e)], Inl e)
             else ([(''info'', ''Executing DuckDuckGo search for query: '' @ q)], Inl e))"
    by (simp add: search_engine_duckduckgo_def lookup_name_def log_and_reraise_def)
  have 7: "chat_create q = Inl e \<and> ns ''logger'' = Some (PObj lg) \<and> ns ''OpenAI'' = Some oa
        \<and> call_value Map.empty oa [] = Inr client
        \<longrightarrow> exa_search ns chat_create q
          = (if caught_by_except_Exception e
             then ([(''info'', ''Executing Exa search for query: '' @ q),
                    (''error'', ''Exa search failed: '' @ exn_msg e)], Inl e)
             else ([(''info'', ''Executing Exa search for query: '' @ q)], Inl e))"
    by (simp add: exa_search_def lookup_name_def log_and_reraise_def)
  have 8: "chat_empty q = Inr [] \<and> ns ''logger'' = Some (PObj lg) \<and> ns ''OpenAI'' = Some oa
        \<and> call_value Map.empty oa [] = Inr client
        \<longrightarrow> exa_search ns chat_empty q
          = ([(''info'', ''Executing Exa search for query: '' @ q),
              (''info'', ''Exa search completed successfully'')],
             Inr (PDict [(''content'', PStr ''No content found.''),
                         (''citations'', PStr ''No citations found.'')]))"
    by (simp add: exa_search_def lookup_name_def exa_info_dict_def)
  from 1 2 3 4 5 6 7 8 show ?thesis by blast
qed

theorem tool_exceptions_propagate_witness:
  "isl (snd (exa_search loaded_globals uncited ''share of PVC in plastic waste''))
   \<and> search_engine_openai loaded_globals unreachable ''share of PVC in plastic waste''
       = ([(''info'', ''Executing OpenAI search for query: share of PVC in plastic waste''),
           (''error'', ''OpenAI search failed: timed out'')], Inl timed_out)
   \<and> search_engine_duckduckgo loaded_globals unreachable ''share of PVC in plastic waste''
       = ([(''info'', ''Executing DuckDuckGo search for query: share of PVC in plastic waste''),
           (''error'', ''DuckDuckGo search failed: timed out'')], Inl timed_out)
   \<and> exa_search loaded_globals unreachable ''share of PVC in plastic waste''
       = ([(''info'', ''Executing Exa search for query: share of PVC in plastic waste''),
           (''error'', ''Exa search failed: timed out'')], Inl timed_out)
   \<and> exa_search loaded_globals without_choices ''share of PVC in plastic waste''
       = ([(''info'', ''Executing Exa search for query: share of PVC in plastic waste''),
           (''info'', ''Exa search completed successfully'')],
          Inr (PDict [(''content'', PStr ''No content found.''),
                      (''citations'', PStr ''No citations found.'')]))"
proof -
  have down: "(unreachable :: pyval backend) ''share of PVC in plastic waste'' = Inl timed_out"
    "(unreachable :: string backend) ''share of PVC in plastic waste'' = Inl timed_out"
    "(unreachable :: completion backend) ''share of PVC in plastic waste'' = Inl timed_out"
    by (simp_all add: unreachable_def)
  have bad: "uncited ''share of PVC in plastic waste''
        = Inr (\<lparr>content = PStr ''PVC is a minor share of plastics'', citations = None\<rparr> # [])"
    "citations \<lparr>content = PStr ''PVC is a minor share of plastics'', citations = None\<rparr> = None"
    by (simp_all add: uncited_def)
  have none: "without_choices ''share of PVC in plastic waste'' = Inr []"
    by (simp add: without_choices_def)
  have globals: "loaded_globals ''logger'' = Some (PObj ''logging.Logger'')"
    "loaded_globals ''client'' = Some (PObj ''openai.OpenAI()'')"
    "loaded_globals ''OpenAI'' = Some (PObj ''openai.OpenAI'')"
    "loaded_globals ''DuckDuckGoSearchRun''
       = Some (PObj ''langchain_community.tools.DuckDuckGoSearchRun'')"
    by (simp_all add: loaded_globals_def)
  have caught: "caught_by_except_Exception timed_out" "exn_msg timed_out = ''timed out''"
    by (simp_all add: caught_by_except_Exception_def timed_out_def)
  from tool_exceptions_propagate [where q = "''share of PVC in plastic waste''"
      and e = timed_out and ns = loaded_globals
      and responses_create = unreachable and run = unreachable and chat_create = unreachable
      and chat_uncited = uncited
      and m = "\<lparr>content = PStr ''PVC is a minor share of plastics'', citations = None\<rparr>"
      and ms = "[]" and lg = "''logging.Logger''" and cl = "''openai.OpenAI()''"
      and d = "PObj ''langchain_community.tools.DuckDuckGoSearchRun''"
      and search = "PObj ''langchain_community.tools.DuckDuckGoSearchRun()''"
      and oa = "PObj ''openai.OpenAI''" and client = "PObj ''openai.OpenAI()''"
      and chat_empty = without_choices]
    down bad none globals caught library_classes_callable
  show ?thesis by simp
qed

text \<open>
  Claim C6 says a failing search fails with a RetrievalError carrying a reason. The module
  has no such exception: a search whose service times out raises the service's own
  TimeoutError.
\<close>

theorem search_failure_is_backend_exception:
  "snd (search_engine_duckduckgo loaded_globals unreachable ''share of PVC in plastic waste'')
     = Inl (Exn ''TimeoutError'' ''timed out'')
   \<and> exn_class (Exn ''TimeoutError'' ''timed out'') \<noteq> ''RetrievalError''"
  by (simp add: search_engine_duckduckgo_def lookup_loaded_globals library_classes_callable
      unreachable_def timed_out_def log_and_reraise_raises)

text \<open>
  Claim C6, amended. A search has two kinds of outcome and no third. It returns, which
  happens only when the call of its service returned; DuckDuckGo then returns the string
  its service answered. Or it raises: the exception the service raised, unchanged, or a
  NameError, AttributeError or TypeError of the tool's own name lookups, attribute reads
  and calls. No exception is wrapped and there is no RetrievalError.
\<close>

theorem search_outcomes:
  "(case snd (search_engine_duckduckgo ns run q) of
      Inr v \<Rightarrow> (\<exists>s. run q = Inr s \<and> v = PStr s)
    | Inl e \<Rightarrow> run q = Inl e \<or> exn_class e = ''NameError'' \<or> exn_class e = ''AttributeError''
               \<or> exn_class e = ''TypeError'')
   \<and> (case snd (search_engine_openai ns responses_create q) of
      Inr v \<Rightarrow> \<not> isl (responses_create q)
    | Inl e \<Rightarrow> responses_create q = Inl e \<or> exn_class e = ''NameError''
               \<or> exn_class e = ''AttributeError'' \<or> exn_class e = ''TypeError'')
   \<and> (case snd (exa_search ns chat_create q) of
      Inr v \<Rightarrow> \<not> isl (chat_create q)
    | Inl e \<Rightarrow> chat_create q = Inl e \<or> exn_class e = ''NameError''
               \<or> exn_class e = ''AttributeError'' \<or> exn_class e = ''TypeError'')"
proof -
  have 1: "case snd (search_engine_duckduckgo ns run q) of
      Inr v \<Rightarrow> (\<exists>s. run q = Inr s \<and> v = PStr s)
    | Inl e \<Rightarrow> run q = Inl e \<or> exn_class e = ''NameError'' \<or> exn_class e = ''AttributeError''
               \<or> exn_class e = ''TypeError''"
    by (auto simp: search_engine_duckduckgo_def log_and_reraise_raises own_exception_classes
        split: sum.splits
        dest!: lookup_name_cases attribute_value_cases call_value_cases)
  have 2: "case snd (search_engine_openai ns responses_create q) of
      Inr v \<Rightarrow> \<not> isl (responses_create q)
    | Inl e \<Rightarrow> responses_create q = Inl e \<or> exn_class e = ''NameError''
               \<or> exn_class e = ''AttributeError'' \<or> exn_class e = ''TypeError''"
    by (auto simp: search_engine_openai_def log_and_reraise_raises own_exception_classes
        split: sum.splits
        dest!: lookup_name_cases attribute_value_cases call_value_cases)
  have 3: "case snd (exa_search ns chat_create q) of
      Inr v \<Rightarrow> \<not> isl (chat_create q)
    | Inl e \<Rightarrow> chat_create q = Inl e \<or> exn_class e = ''NameError''
               \<or> exn_class e = ''AttributeError'' \<or> exn_class e = ''TypeError''"
    by (auto simp: exa_search_def exa_info_dict_def log_and_reraise_raises own_exception_classes
        split: sum.splits list.splits option.splits
        dest!: lookup_name_cases attribute_value_cases call_value_cases)
  from 1 2 3 show ?thesis by simp
qed

theorem search_outcomes_witness:
  "snd (search_engine_duckduckgo loaded_globals answering ''share of PVC in plastic waste'')
     = Inr (PStr ''results for share of PVC in plastic waste'')
   \<and> (\<exists>s. answering ''share of PVC in plastic waste'' = Inr s
        \<and> PStr ''results for share of PVC in plastic waste'' = PStr s)
   \<and> snd (search_engine_openai loaded_globals unreachable ''share of PVC in plastic waste'')
     = Inl timed_out
   \<and> snd (exa_search Map.empty unreachable ''share of PVC in plastic waste'')
     = Inl (NameError ''logger'')"
proof -
  have a: "snd (search_engine_duckduckgo loaded_globals answering ''share of PVC in plastic waste'')
     = Inr (PStr ''results for share of PVC in plastic waste'')"
    by (simp add: search_engine_duckduckgo_def lookup_loaded_globals library_classes_callable
        answering_def)
  have b: "snd (search_engine_openai loaded_globals unreachable ''share of PVC in plastic waste'')
     = Inl timed_out"
    by (simp add: search_engine_openai_def lookup_loaded_globals unreachable_def
        log_and_reraise_raises)
  have c: "snd (exa_search Map.empty unreachable ''share of PVC in plastic waste'')
     = Inl (NameError ''logger'')"
    by (simp add: exa_search_def lookup_name_def unbound_not_builtin)
  from search_outcomes [where ns = loaded_globals and run = answering
      and q = "''share of PVC in plastic waste''"] a
  have "\<exists>s. answering ''share of PVC in plastic waste'' = Inr s
        \<and> PStr ''results for share of PVC in plastic waste'' = PStr s"
    by simp
  with a b c show ?thesis by simp
qed

section \<open>What a worker returns\<close>








section \<open>What a run records\<close>







end
